theory Spec2Isabelle
  imports Main "HOL-Library.Multiset"
begin

section \<open>The unattended Gmail digest script\<close>

text \<open>
  A shallow embedding of \<^verbatim>\<open>gmail_unattended_script.py\<close>. The script talks to two
  remote services (the mail provider and a language-model endpoint). Each remote request
  is a function of its arguments that either raises (a \<open>py_error\<close>) or answers, and every
  function that issues requests returns, next to its Python result, the list of requests
  it issued, in order, each with its outcome. Logging is not modelled. A Python string
  is the list of its code points, taken below 256 (the type \<open>char\<close>).
\<close>

subsection \<open>Python values\<close>

text \<open>An exception, carried by the text that \<^verbatim>\<open>str(e)\<close> gives.\<close>

datatype py_error = PyError string

fun str_of_error :: "py_error \<Rightarrow> string" where
  "str_of_error (PyError m) = m"

text \<open>What \<^verbatim>\<open>json.loads\<close> can return. Numbers are kept as integers.\<close>

datatype json =
    JNull
  | JBool bool
  | JNum int
  | JStr string
  | JArr "json list"
  | JObj "(string \<times> json) list"

text \<open>\<^verbatim>\<open>type(v).__name__\<close>, as it appears in the messages of the interpreter.\<close>

fun py_type_name :: "json \<Rightarrow> string" where
  "py_type_name JNull = ''NoneType''"
| "py_type_name (JBool _) = ''bool''"
| "py_type_name (JNum _) = ''int''"
| "py_type_name (JStr _) = ''str''"
| "py_type_name (JArr _) = ''list''"
| "py_type_name (JObj _) = ''dict''"

text \<open>\<^verbatim>\<open>d.get(key, default)\<close>: a method of dictionaries only.\<close>

fun py_get :: "json \<Rightarrow> string \<Rightarrow> json \<Rightarrow> py_error + json" where
  "py_get (JObj kvs) k d = Inr (case map_of kvs k of None \<Rightarrow> d | Some v \<Rightarrow> v)"
| "py_get v k d =
     Inl (PyError ([CHR 0x27] @ py_type_name v @ [CHR 0x27] @ '' object has no attribute ''
            @ [CHR 0x27] @ ''get'' @ [CHR 0x27]))"

text \<open>Decimal digits of a natural number, as an f-string prints an \<^verbatim>\<open>int\<close>.\<close>

fun show_nat :: "nat \<Rightarrow> string" where
  "show_nat n =
     (if n < 10 then [''0123456789'' ! n]
      else show_nat (n div 10) @ [''0123456789'' ! (n mod 10)])"

declare show_nat.simps [simp del]

text \<open>
  \<^verbatim>\<open>sep.join(items)\<close>: every item must be a \<^verbatim>\<open>str\<close>; the first that is not raises
  \<^verbatim>\<open>TypeError\<close>. The index counts the items from \<open>i\<close>.
\<close>

fun join_strs :: "string \<Rightarrow> string list \<Rightarrow> string" where
  "join_strs sep [] = []"
| "join_strs sep [x] = x"
| "join_strs sep (x # y # ys) = x @ sep @ join_strs sep (y # ys)"

fun all_strs :: "nat \<Rightarrow> json list \<Rightarrow> py_error + string list" where
  "all_strs i [] = Inr []"
| "all_strs i (JStr s # vs) =
     (case all_strs (Suc i) vs of Inl e \<Rightarrow> Inl e | Inr ss \<Rightarrow> Inr (s # ss))"
| "all_strs i (v # vs) =
     Inl (PyError (''sequence item '' @ show_nat i @ '': expected str instance, ''
            @ py_type_name v @ '' found''))"

definition py_join :: "string \<Rightarrow> json list \<Rightarrow> py_error + string" where
  "py_join sep items =
     (case all_strs 0 items of Inl e \<Rightarrow> Inl e | Inr ss \<Rightarrow> Inr (join_strs sep ss))"

text \<open>\<^verbatim>\<open>s.split("\n")\<close>: the pieces between the separators; never the empty list.\<close>

fun split_on :: "char \<Rightarrow> string \<Rightarrow> string list" where
  "split_on c [] = [[]]"
| "split_on c (x # xs) =
     (if x = c then [] # split_on c xs
      else (case split_on c xs of [] \<Rightarrow> [[x]] | p # ps \<Rightarrow> (x # p) # ps))"

text \<open>
  \<^verbatim>\<open>s.strip()\<close> removes leading and trailing white space. Among the code points
  below 256, white space is: tab to carriage return (9 to 13), the four separators 28 to
  31, the blank (32), the next-line control (0x85) and the no-break space (0xA0).
\<close>

definition is_space :: "char \<Rightarrow> bool" where
  "is_space c =
     (let n = (of_char c :: nat)
      in (9 \<le> n \<and> n \<le> 13) \<or> (28 \<le> n \<and> n \<le> 32) \<or> n = 133 \<or> n = 160)"

definition strip :: "string \<Rightarrow> string" where
  "strip s = rev (dropWhile is_space (rev (dropWhile is_space s)))"

text \<open>\<^verbatim>\<open>xs[1:-1]\<close>: without the first and the last element; empty below three.\<close>

definition slice_1_m1 :: "'a list \<Rightarrow> 'a list" where
  "slice_1_m1 xs = butlast (tl xs)"

text \<open>
  \<^verbatim>\<open>s.lower()\<close>: among the code points below 256, the upper-case letters are A to Z
  and 0xC0 to 0xDE without the multiplication sign 0xD7; each lowers to the code point 32
  above it.
\<close>

definition upper_letters :: string where
  "upper_letters =
     ''ABCDEFGHIJKLMNOPQRSTUVWXYZ''
     @ [CHR 0xC0, CHR 0xC1, CHR 0xC2, CHR 0xC3, CHR 0xC4, CHR 0xC5, CHR 0xC6, CHR 0xC7,
        CHR 0xC8, CHR 0xC9, CHR 0xCA, CHR 0xCB, CHR 0xCC, CHR 0xCD, CHR 0xCE, CHR 0xCF,
        CHR 0xD0, CHR 0xD1, CHR 0xD2, CHR 0xD3, CHR 0xD4, CHR 0xD5, CHR 0xD6, CHR 0xD8,
        CHR 0xD9, CHR 0xDA, CHR 0xDB, CHR 0xDC, CHR 0xDD, CHR 0xDE]"

definition lower_letters :: string where
  "lower_letters =
     ''abcdefghijklmnopqrstuvwxyz''
     @ [CHR 0xE0, CHR 0xE1, CHR 0xE2, CHR 0xE3, CHR 0xE4, CHR 0xE5, CHR 0xE6, CHR 0xE7,
        CHR 0xE8, CHR 0xE9, CHR 0xEA, CHR 0xEB, CHR 0xEC, CHR 0xED, CHR 0xEE, CHR 0xEF,
        CHR 0xF0, CHR 0xF1, CHR 0xF2, CHR 0xF3, CHR 0xF4, CHR 0xF5, CHR 0xF6, CHR 0xF8,
        CHR 0xF9, CHR 0xFA, CHR 0xFB, CHR 0xFC, CHR 0xFD, CHR 0xFE]"

definition lower_char :: "char \<Rightarrow> char" where
  "lower_char c =
     (case map_of (zip upper_letters lower_letters) c of
        None \<Rightarrow> c
      | Some l \<Rightarrow> l)"

definition lower :: "string \<Rightarrow> string" where
  "lower s = map lower_char s"

subsection \<open>The mail service\<close>

text \<open>
  The answers of the mail provider, typed as its API gives them: a page of a listing has
  the ids of its messages (the key \<^verbatim>\<open>messages\<close> may be absent) and perhaps a
  \<^verbatim>\<open>nextPageToken\<close>; a message has perhaps a snippet and perhaps a payload, which has
  perhaps headers, each a name and a value.
\<close>

record list_response =
  messages :: "string list option"
  nextPageToken :: "string option"

record header =
  h_name :: string
  h_value :: string

record payload =
  headers :: "header list option"

record msg_detail =
  d_snippet :: "string option"
  d_payload :: "payload option"

text \<open>
  The four requests the script issues. \<open>modify_exec\<close> stands for the request that
  removes the label \<^verbatim>\<open>UNREAD\<close> from a message, \<open>send_exec\<close> for sending a message
  given by recipient, subject and HTML body (its MIME and base64 encoding is not
  modelled). For these two, \<open>None\<close> is success.
\<close>

record gmail =
  list_exec :: "string option \<Rightarrow> py_error + list_response"
  get_exec :: "string \<Rightarrow> py_error + msg_detail"
  modify_exec :: "string \<Rightarrow> py_error option"
  send_exec :: "string \<Rightarrow> string \<Rightarrow> string \<Rightarrow> py_error option"

subsection \<open>The language-model service\<close>

datatype function_call = FunctionCall (arguments: string)

record chat_message =
  content :: "string option"
  function_call :: "function_call option"

text \<open>
  A chat completion request: the model, the messages (role and content), and whether the
  function \<^verbatim>\<open>classify_and_summarize\<close> is offered and forced. The answer is the list of
  the messages of \<^verbatim>\<open>response.choices\<close>.
\<close>

datatype chat_request = ChatRequest string "(string \<times> string) list" bool

type_synonym openai = "chat_request \<Rightarrow> py_error + chat_message list"

subsection \<open>Requests issued\<close>

datatype event =
    ListReq "string option" "py_error option"
  | GetReq string "py_error option"
  | ChatReq chat_request "py_error option"
  | ModifyReq string "py_error option"
  | SendReq string string string "py_error option"

fun failed :: "event \<Rightarrow> bool" where
  "failed (ListReq _ r) = (r \<noteq> None)"
| "failed (GetReq _ r) = (r \<noteq> None)"
| "failed (ChatReq _ r) = (r \<noteq> None)"
| "failed (ModifyReq _ r) = (r \<noteq> None)"
| "failed (SendReq _ _ _ r) = (r \<noteq> None)"

fun is_fetch :: "event \<Rightarrow> bool" where
  "is_fetch (ListReq _ _) = True"
| "is_fetch (GetReq _ _) = True"
| "is_fetch _ = False"

fun is_chat :: "event \<Rightarrow> bool" where
  "is_chat (ChatReq _ _) = True"
| "is_chat _ = False"

fun is_modify :: "event \<Rightarrow> bool" where
  "is_modify (ModifyReq _ _) = True"
| "is_modify _ = False"

fun is_send :: "event \<Rightarrow> bool" where
  "is_send (SendReq _ _ _ _) = True"
| "is_send _ = False"

text \<open>
  The ids passed to a modify request, and the ids whose unread flag a run cleared: those
  with a modify request that succeeded.
\<close>

fun modify_requested :: "event list \<Rightarrow> string list" where
  "modify_requested [] = []"
| "modify_requested (ModifyReq i _ # tr) = i # modify_requested tr"
| "modify_requested (_ # tr) = modify_requested tr"

fun marked_read :: "event list \<Rightarrow> string list" where
  "marked_read [] = []"
| "marked_read (ModifyReq i None # tr) = i # marked_read tr"
| "marked_read (_ # tr) = marked_read tr"

subsection \<open>Configuration\<close>

definition OPENAI_MODEL_CLASSIFY :: string where
  "OPENAI_MODEL_CLASSIFY = ''gpt-4o''"

definition OPENAI_MODEL_SUMMARY :: string where
  "OPENAI_MODEL_SUMMARY = ''o1-preview''"

definition SEND_TO_EMAIL :: string where
  "SEND_TO_EMAIL = ''blgottshall@gmail.com''"

subsection \<open>Retrieving the unread messages\<close>

record email =
  msg_id :: string
  subject :: string
  snippet :: string

text \<open>\<^verbatim>\<open>x or d\<close> on an optional string: \<open>None\<close> and the empty string are falsy.\<close>

fun str_or :: "string option \<Rightarrow> string \<Rightarrow> string" where
  "str_or None d = d"
| "str_or (Some s) d = (if s = [] then d else s)"

fun falsy :: "string option \<Rightarrow> bool" where
  "falsy None = True"
| "falsy (Some s) = (s = [])"

text \<open>The loop over the headers: the value of the first one named subject.\<close>

fun find_subject :: "header list \<Rightarrow> string option" where
  "find_subject [] = None"
| "find_subject (h # hs) =
     (if lower (h_name h) = ''subject'' then Some (h_value h) else find_subject hs)"

definition detail_headers :: "msg_detail \<Rightarrow> header list" where
  "detail_headers d =
     (case d_payload d of None \<Rightarrow> []
      | Some p \<Rightarrow> (case headers p of None \<Rightarrow> [] | Some hs \<Rightarrow> hs))"

definition email_of :: "string \<Rightarrow> msg_detail \<Rightarrow> email" where
  "email_of i d =
     \<lparr>msg_id = i,
      subject = str_or (find_subject (detail_headers d)) ''(No Subject)'',
      snippet = (case d_snippet d of None \<Rightarrow> [] | Some s \<Rightarrow> s)\<rparr>"

text \<open>
  The inner loop over the messages of one page, appending to \<open>emails_data\<close>; the first
  request that raises ends it.
\<close>

fun fetch_messages ::
  "gmail \<Rightarrow> string list \<Rightarrow> email list \<Rightarrow> (py_error + email list) \<times> event list" where
  "fetch_messages g [] emails_data = (Inr emails_data, [])"
| "fetch_messages g (i # ids) emails_data =
     (case get_exec g i of
        Inl e \<Rightarrow> (Inl e, [GetReq i (Some e)])
      | Inr d \<Rightarrow>
          (case fetch_messages g ids (emails_data @ [email_of i d]) of
             (r, tr) \<Rightarrow> (r, GetReq i None # tr)))"

text \<open>
  The body of the \<^verbatim>\<open>try\<close>: the loop over the pages. It ends when a page has no (or an
  empty) \<^verbatim>\<open>nextPageToken\<close> or a request raises; the fuel bounds the number of pages
  requested, and \<open>None\<close> says that it ran out.
\<close>

fun fetch_pages ::
  "nat \<Rightarrow> gmail \<Rightarrow> string option \<Rightarrow> email list
     \<Rightarrow> ((py_error + email list) \<times> event list) option" where
  "fetch_pages 0 g page_token emails_data = None"
| "fetch_pages (Suc n) g page_token emails_data =
     (case list_exec g page_token of
        Inl e \<Rightarrow> Some (Inl e, [ListReq page_token (Some e)])
      | Inr response \<Rightarrow>
          (case fetch_messages g
                  (case messages response of None \<Rightarrow> [] | Some ms \<Rightarrow> ms) emails_data of
             (Inl e, tr) \<Rightarrow> Some (Inl e, ListReq page_token None # tr)
           | (Inr emails_data', tr) \<Rightarrow>
               if falsy (nextPageToken response)
               then Some (Inr emails_data', ListReq page_token None # tr)
               else (case fetch_pages n g (nextPageToken response) emails_data' of
                       None \<Rightarrow> None
                     | Some (r, tr') \<Rightarrow> Some (r, ListReq page_token None # tr @ tr'))))"

definition get_unread_emails_past_24h ::
  "nat \<Rightarrow> gmail \<Rightarrow> (email list \<times> event list) option" where
  "get_unread_emails_past_24h n service =
     (case fetch_pages n service None [] of
        None \<Rightarrow> None
      | Some (Inl e, tr) \<Rightarrow> Some ([], tr)
      | Some (Inr emails_data, tr) \<Rightarrow> Some (emails_data, tr))"

subsection \<open>Classification and summary\<close>

definition system_instructions :: string where
  "system_instructions =
     ''You are an email classification and summarization service. ''
     @ ''Categorize each email into exactly one of: 'newsletter', 'notification', or 'important'. ''
     @ ''Then produce a concise summary in Markdown, carefully extracting key points without ''
     @ ''omitting vital information. If the email references new invitations, messages, or calls to action, ''
     @ ''include them. Only use details from the subject/snippet. Do not invent or guess details.''"

definition classify_request :: "string \<Rightarrow> string \<Rightarrow> chat_request" where
  "classify_request subj snip =
     ChatRequest OPENAI_MODEL_CLASSIFY
       [(''system'', system_instructions),
        (''user'', ''Subject: '' @ subj @ ''\<newline>\<newline>Email snippet:\<newline>'' @ snip)]
       True"

text \<open>
  The result is the dictionary with the keys \<^verbatim>\<open>category\<close> and \<^verbatim>\<open>summary\<close>, here a
  pair. \<open>no_function_call\<close> and \<open>error_result\<close> are the two defaults of the source.
\<close>

definition no_function_call :: "json \<times> json" where
  "no_function_call =
     (JStr ''important'',
      JStr ''Unable to parse email with function calling. Defaulting to 'important'.'')"

definition error_result :: "py_error \<Rightarrow> json \<times> json" where
  "error_result e =
     (JStr ''important'',
      JStr (''Error occurred. Defaulting to category 'important'.\<newline>\<newline>**Details:** ''
            @ str_of_error e))"

text \<open>
  The body of the \<^verbatim>\<open>try\<close> after the request: \<^verbatim>\<open>choices[0]\<close> raises on an empty
  list, \<open>loads\<close> (\<^verbatim>\<open>json.loads\<close>, a parameter) raises on text that is not JSON, and
  \<^verbatim>\<open>.get\<close> raises on a value that is not a dictionary.
\<close>

definition read_choices ::
  "(string \<Rightarrow> py_error + json) \<Rightarrow> chat_message list \<Rightarrow> py_error + json \<times> json" where
  "read_choices loads choices =
     (case choices of
        [] \<Rightarrow> Inl (PyError ''list index out of range'')
      | choice # _ \<Rightarrow>
          (case function_call choice of
             None \<Rightarrow> Inr no_function_call
           | Some function_call_obj \<Rightarrow>
               (case loads (arguments function_call_obj) of
                  Inl e \<Rightarrow> Inl e
                | Inr args_dict \<Rightarrow>
                    (case py_get args_dict ''category'' (JStr ''important'') of
                       Inl e \<Rightarrow> Inl e
                     | Inr category \<Rightarrow>
                         (case py_get args_dict ''summary'' (JStr []) of
                            Inl e \<Rightarrow> Inl e
                          | Inr summary_md \<Rightarrow> Inr (category, summary_md))))))"

definition classify_and_summarize_email ::
  "openai \<Rightarrow> (string \<Rightarrow> py_error + json) \<Rightarrow> string \<Rightarrow> string
     \<Rightarrow> (json \<times> json) \<times> event list" where
  "classify_and_summarize_email ai loads subj snip =
     (let request = classify_request subj snip in
      case ai request of
        Inl e \<Rightarrow> (error_result e, [ChatReq request (Some e)])
      | Inr choices \<Rightarrow>
          (case read_choices loads choices of
             Inl e \<Rightarrow> (error_result e, [ChatReq request None])
           | Inr result \<Rightarrow> (result, [ChatReq request None])))"

subsection \<open>Marking as read\<close>

record classified_email = email +
  category :: json
  summary :: json

text \<open>A modify request that raises is logged and the loop goes on.\<close>

fun mark_non_important_as_read :: "gmail \<Rightarrow> classified_email list \<Rightarrow> event list" where
  "mark_non_important_as_read service [] = []"
| "mark_non_important_as_read service (e # classified_emails) =
     (if category e \<noteq> JStr ''important''
      then ModifyReq (msg_id e) (modify_exec service (msg_id e))
             # mark_non_important_as_read service classified_emails
      else mark_non_important_as_read service classified_emails)"

subsection \<open>The digest\<close>

definition entry_line :: "nat \<Rightarrow> classified_email \<Rightarrow> string" where
  "entry_line i e = ''**'' @ show_nat i @ ''.** **Subject:** '' @ subject e"

text \<open>
  One of the three loops \<^verbatim>\<open>for i, email in enumerate(group, start=1)\<close>, from the
  counter \<open>i\<close> on, appending to \<open>lines\<close>.
\<close>

fun append_entries :: "nat \<Rightarrow> classified_email list \<Rightarrow> json list \<Rightarrow> json list" where
  "append_entries i [] lines = lines"
| "append_entries i (e # es) lines =
     append_entries (Suc i) es (lines @ [JStr (entry_line i e), summary e, JStr []])"

text \<open>The list \<open>lines\<close> as it is when it is joined; \<open>today\<close> is the date string.\<close>

definition digest_lines :: "string \<Rightarrow> classified_email list \<Rightarrow> json list" where
  "digest_lines today classified_emails =
     (let important_emails = filter (\<lambda>e. category e = JStr ''important'') classified_emails;
          notification_emails = filter (\<lambda>e. category e = JStr ''notification'') classified_emails;
          newsletter_emails = filter (\<lambda>e. category e = JStr ''newsletter'') classified_emails;
          lines0 = [JStr (''**Executive Summary for '' @ today @ ''**\<newline>'')];
          lines1 = (if important_emails \<noteq> []
                    then append_entries 1 important_emails
                           (lines0 @ [JStr ''### Important Emails\<newline>''])
                    else lines0);
          lines2 = (if notification_emails \<noteq> []
                    then append_entries 1 notification_emails
                           (lines1 @ [JStr ''### Notifications\<newline>''])
                    else lines1);
          lines3 = (if newsletter_emails \<noteq> []
                    then append_entries 1 newsletter_emails
                           (lines2 @ [JStr ''### Newsletters\<newline>''])
                    else lines2)
      in lines3 @ [JStr ''\<newline>**End of Summary**''])"

definition generate_executive_summary ::
  "string \<Rightarrow> classified_email list \<Rightarrow> py_error + string" where
  "generate_executive_summary today classified_emails =
     py_join ''\<newline>'' (digest_lines today classified_emails)"

subsection \<open>Conversion to HTML and sending\<close>

definition convert_request :: "string \<Rightarrow> chat_request" where
  "convert_request markdown_text =
     ChatRequest OPENAI_MODEL_SUMMARY
       [(''user'', ''Convert the following Markdown to HTML.\<newline>\<newline>'' @ markdown_text)]
       False"

definition conversion_error :: "py_error \<Rightarrow> string" where
  "conversion_error e = ''<p>Error converting Markdown to HTML: '' @ str_of_error e @ ''</p>''"

text \<open>The first and the last line of the stripped answer are dropped, whatever they are.\<close>

definition drop_fences :: "string \<Rightarrow> string" where
  "drop_fences text = join_strs ''\<newline>'' (slice_1_m1 (split_on CHR ''\<newline>'' (strip text)))"

definition read_content :: "chat_message list \<Rightarrow> py_error + string" where
  "read_content choices =
     (case choices of
        [] \<Rightarrow> Inl (PyError ''list index out of range'')
      | choice # _ \<Rightarrow>
          (case content choice of
             None \<Rightarrow>
               Inl (PyError ([CHR 0x27] @ ''NoneType'' @ [CHR 0x27] @ '' object has no attribute ''
                      @ [CHR 0x27] @ ''strip'' @ [CHR 0x27]))
           | Some c \<Rightarrow> Inr (drop_fences c)))"

definition convert_md_to_html :: "openai \<Rightarrow> string \<Rightarrow> string \<times> event list" where
  "convert_md_to_html ai markdown_text =
     (let request = convert_request markdown_text in
      case ai request of
        Inl e \<Rightarrow> (conversion_error e, [ChatReq request (Some e)])
      | Inr choices \<Rightarrow>
          (case read_content choices of
             Inl e \<Rightarrow> (conversion_error e, [ChatReq request None])
           | Inr html_output \<Rightarrow> (html_output, [ChatReq request None])))"

definition send_html_email :: "gmail \<Rightarrow> string \<Rightarrow> string \<Rightarrow> string \<Rightarrow> event list" where
  "send_html_email service to_address subj html_content =
     [SendReq to_address subj html_content (send_exec service to_address subj html_content)]"

subsection \<open>The run\<close>

text \<open>The loop of \<^verbatim>\<open>main\<close> that attaches category and summary to every message.\<close>

fun classify_all ::
  "openai \<Rightarrow> (string \<Rightarrow> py_error + json) \<Rightarrow> email list
     \<Rightarrow> classified_email list \<times> event list" where
  "classify_all ai loads [] = ([], [])"
| "classify_all ai loads (e # unread_emails) =
     (case classify_and_summarize_email ai loads (subject e) (snippet e) of
        (result, tr) \<Rightarrow>
          (case classify_all ai loads unread_emails of
             (classified_emails, tr') \<Rightarrow>
               (email.extend e \<lparr>category = fst result, summary = snd result\<rparr>
                  # classified_emails, tr @ tr')))"

text \<open>
  \<open>auth\<close> is the outcome of \<^verbatim>\<open>get_gmail_service()\<close>, \<open>date1\<close> and \<open>date2\<close> are the two
  readings of the date. The result is the exception that ends the run, if any, with the
  requests issued; \<open>None\<close> when the fetch loop runs out of fuel.
\<close>

definition main ::
  "nat \<Rightarrow> py_error + gmail \<Rightarrow> openai \<Rightarrow> (string \<Rightarrow> py_error + json) \<Rightarrow> string \<Rightarrow> string
     \<Rightarrow> (py_error option \<times> event list) option" where
  "main n auth ai loads date1 date2 =
     (case auth of
        Inl e \<Rightarrow> Some (Some e, [])
      | Inr service \<Rightarrow>
          (case get_unread_emails_past_24h n service of
             None \<Rightarrow> None
           | Some (unread_emails, tr1) \<Rightarrow>
               if unread_emails = [] then Some (None, tr1)
               else
                 (case classify_all ai loads unread_emails of
                    (classified_emails, tr2) \<Rightarrow>
                      (let tr3 = mark_non_important_as_read service classified_emails in
                       case generate_executive_summary date1 classified_emails of
                         Inl e \<Rightarrow> Some (Some e, tr1 @ tr2 @ tr3)
                       | Inr summary_md \<Rightarrow>
                           (case convert_md_to_html ai summary_md of
                              (summary_html, tr4) \<Rightarrow>
                                Some (None,
                                  tr1 @ tr2 @ tr3 @ tr4
                                  @ send_html_email service SEND_TO_EMAIL
                                      (''Daily Recap: '' @ date2) summary_html))))))"

subsection \<open>Notions of the specification\<close>

text \<open>A message has a Subject header when one of its payload headers is named so.\<close>

definition has_subject_header :: "msg_detail \<Rightarrow> bool" where
  "has_subject_header d = (\<exists>h\<in>set (detail_headers d). lower (h_name h) = ''subject'')"

text \<open>
  A request of the fetch stage raises within the first \<open>n\<close> pages, starting from a page
  token: the list request of a page, or a get request for one of its messages, or a
  request of a later page.
\<close>

fun fails_within :: "nat \<Rightarrow> gmail \<Rightarrow> string option \<Rightarrow> bool" where
  "fails_within 0 g page_token = False"
| "fails_within (Suc n) g page_token =
     (case list_exec g page_token of
        Inl e \<Rightarrow> True
      | Inr response \<Rightarrow>
          (\<exists>i\<in>set (case messages response of None \<Rightarrow> [] | Some ms \<Rightarrow> ms).
              isl (get_exec g i))
          \<or> (\<not> falsy (nextPageToken response)
              \<and> fails_within n g (nextPageToken response)))"

text \<open>
  The category that the run attaches to a fetched message, and the record that the loop
  of \<^verbatim>\<open>main\<close> builds for it.
\<close>

definition attached_category ::
  "openai \<Rightarrow> (string \<Rightarrow> py_error + json) \<Rightarrow> email \<Rightarrow> json" where
  "attached_category ai loads m =
     fst (fst (classify_and_summarize_email ai loads (subject m) (snippet m)))"

definition attach ::
  "openai \<Rightarrow> (string \<Rightarrow> py_error + json) \<Rightarrow> email \<Rightarrow> classified_email" where
  "attach ai loads m =
     email.extend m
       \<lparr>category = fst (fst (classify_and_summarize_email ai loads (subject m) (snippet m))),
        summary = snd (fst (classify_and_summarize_email ai loads (subject m) (snippet m)))\<rparr>"

text \<open>
  The values that the loop over one group appends to \<open>lines\<close>, and the groups of the
  digest in the order important, notification, newsletter, each with its header, and the
  header that belongs to a category.
\<close>

definition digest_entries :: "classified_email list \<Rightarrow> json list" where
  "digest_entries es =
     concat (map (\<lambda>(i, e). [JStr (entry_line i e), summary e, JStr []])
                 (zip [1..<Suc (length es)] es))"

definition digest_section :: "string \<Rightarrow> classified_email list \<Rightarrow> json list" where
  "digest_section header es = (if es = [] then [] else JStr header # digest_entries es)"

definition digest_groups ::
  "classified_email list \<Rightarrow> (string \<times> classified_email list) list" where
  "digest_groups emails =
     [(''### Important Emails\<newline>'', filter (\<lambda>e. category e = JStr ''important'') emails),
      (''### Notifications\<newline>'', filter (\<lambda>e. category e = JStr ''notification'') emails),
      (''### Newsletters\<newline>'', filter (\<lambda>e. category e = JStr ''newsletter'') emails)]"

definition category_header :: "json \<Rightarrow> string option" where
  "category_header c =
     (if c = JStr ''important'' then Some ''### Important Emails\<newline>''
      else if c = JStr ''notification'' then Some ''### Notifications\<newline>''
      else if c = JStr ''newsletter'' then Some ''### Newsletters\<newline>''
      else None)"


text \<open>
  A text is the decimal numeral of a number: digits only, no leading zero unless the text
  is \<^verbatim>\<open>0\<close>, and the number as its value.
\<close>

definition digit_value :: "char \<Rightarrow> nat" where
  "digit_value c = length (takeWhile (\<lambda>d. d \<noteq> c) ''0123456789'')"

definition dec_value :: "string \<Rightarrow> nat" where
  "dec_value s = foldl (\<lambda>a c. 10 * a + digit_value c) 0 s"

definition is_decimal_of :: "string \<Rightarrow> nat \<Rightarrow> bool" where
  "is_decimal_of s n =
     (s \<noteq> [] \<and> list_all (\<lambda>c. c \<in> set ''0123456789'') s
      \<and> (hd s = CHR ''0'' \<longrightarrow> s = ''0'') \<and> dec_value s = n)"

text \<open>
  The text of the digest as the specification describes it, for groups given with their
  headers: the title, then for every group that is not empty its header and its entries,
  the entry at position \<open>k\<close> (counted from 1) being a line with the number \<open>k\<close> and the
  subject, then the summary, then an empty line; then the closing line.
\<close>

definition summary_text :: "classified_email \<Rightarrow> string" where
  "summary_text e = (case summary e of JStr s \<Rightarrow> s | _ \<Rightarrow> [])"

definition entry_text :: "nat \<Rightarrow> classified_email \<Rightarrow> string" where
  "entry_text k e =
     ''**'' @ show_nat k @ ''.** **Subject:** '' @ subject e @ ''\<newline>''
     @ summary_text e @ ''\<newline>''
     @ ''\<newline>''"

definition section_text :: "string \<Rightarrow> classified_email list \<Rightarrow> string" where
  "section_text header es =
     (if es = [] then []
      else header @ ''\<newline>''
           @ concat (map (\<lambda>(k, e). entry_text k e) (zip [1..<Suc (length es)] es)))"

definition digest_text :: "string \<Rightarrow> (string \<times> classified_email list) list \<Rightarrow> string" where
  "digest_text today groups =
     ''**Executive Summary for '' @ today @ ''**\<newline>'' @ ''\<newline>''
     @ concat (map (\<lambda>(header, es). section_text header es) groups)
     @ ''\<newline>**End of Summary**''"

subsection \<open>Example runs\<close>

text \<open>A listing of two pages whose second page request raises.\<close>

definition flaky_mail :: gmail where
  "flaky_mail =
     \<lparr>list_exec = (\<lambda>page_token.
        if page_token = None
        then Inr \<lparr>messages = Some [''m1''], nextPageToken = Some ''p2''\<rparr>
        else Inl (PyError ''HttpError 500'')),
      get_exec = (\<lambda>i. Inr \<lparr>d_snippet = Some ''hello'',
        d_payload = Some \<lparr>headers = Some [\<lparr>h_name = ''Subject'', h_value = ''Hi''\<rparr>]\<rparr>\<rparr>),
      modify_exec = (\<lambda>i. None),
      send_exec = (\<lambda>to_address subj body. None)\<rparr>"

text \<open>A listing with no message at all.\<close>

definition empty_mail :: gmail where
  "empty_mail =
     \<lparr>list_exec = (\<lambda>page_token. Inr \<lparr>messages = None, nextPageToken = None\<rparr>),
      get_exec = (\<lambda>i. Inl (PyError ''HttpError 404'')),
      modify_exec = (\<lambda>i. None),
      send_exec = (\<lambda>to_address subj body. None)\<rparr>"

text \<open>
  An inbox of three unread messages on one page: \<open>m1\<close> with a header \<^verbatim>\<open>SUBJECT\<close>,
  \<open>m2\<close> with no payload, \<open>m3\<close> with a header \<^verbatim>\<open>Subject\<close>. The modify request for
  \<open>m2\<close> raises.
\<close>

definition inbox_detail :: "string \<Rightarrow> py_error + msg_detail" where
  "inbox_detail i =
     (if i = ''m1'' then
        Inr \<lparr>d_snippet = Some ''50% off'',
             d_payload = Some \<lparr>headers = Some
               [\<lparr>h_name = ''From'', h_value = ''shop@example.com''\<rparr>,
                \<lparr>h_name = ''SUBJECT'', h_value = ''Sale''\<rparr>]\<rparr>\<rparr>
      else if i = ''m2'' then
        Inr \<lparr>d_snippet = Some ''Build passed'', d_payload = None\<rparr>
      else if i = ''m3'' then
        Inr \<lparr>d_snippet = Some ''Please pay'',
             d_payload = Some \<lparr>headers = Some
               [\<lparr>h_name = ''Subject'', h_value = ''Invoice''\<rparr>]\<rparr>\<rparr>
      else Inl (PyError ''HttpError 404''))"

definition inbox_mail :: gmail where
  "inbox_mail =
     \<lparr>list_exec = (\<lambda>page_token.
        Inr \<lparr>messages = Some [''m1'', ''m2'', ''m3''], nextPageToken = None\<rparr>),
      get_exec = inbox_detail,
      modify_exec = (\<lambda>i. if i = ''m2'' then Some (PyError ''HttpError 503'') else None),
      send_exec = (\<lambda>to_address subj body. None)\<rparr>"

text \<open>The answers of the language model to the three classification requests.\<close>

definition args_newsletter :: string where
  \<open>args_newsletter = ''{"category": "newsletter", "summary": "A sale."}''\<close>

definition args_notification :: string where
  \<open>args_notification = ''{"category": "notification", "summary": "Build passed."}''\<close>

definition args_important :: string where
  \<open>args_important = ''{"category": "important", "summary": "Pay the invoice."}''\<close>

definition args_spam :: string where
  \<open>args_spam = ''{"category": "spam", "summary": "Limited offer"}''\<close>

text \<open>
  \<^verbatim>\<open>json.loads\<close> on these four texts, on the empty object and on the empty list; it
  raises on every other text.
\<close>

definition example_loads :: "string \<Rightarrow> py_error + json" where
  "example_loads s =
     (if s = ''{}'' then Inr (JObj [])
      else if s = ''[]'' then Inr (JArr [])
      else if s = args_newsletter then
        Inr (JObj [(''category'', JStr ''newsletter''), (''summary'', JStr ''A sale.'')])
      else if s = args_notification then
        Inr (JObj [(''category'', JStr ''notification''), (''summary'', JStr ''Build passed.'')])
      else if s = args_important then
        Inr (JObj [(''category'', JStr ''important''), (''summary'', JStr ''Pay the invoice.'')])
      else if s = args_spam then
        Inr (JObj [(''category'', JStr ''spam''), (''summary'', JStr ''Limited offer'')])
      else Inl (PyError ''Expecting value: line 1 column 1 (char 0)''))"

definition answer_call :: "string \<Rightarrow> py_error + chat_message list" where
  "answer_call args = Inr [\<lparr>content = None, function_call = Some (FunctionCall args)\<rparr>]"

fun example_ai :: openai where
  "example_ai (ChatRequest model msgs forced) =
     (if forced then
        (if msgs = [] then Inl (PyError ''BadRequestError'')
         else if snd (last msgs) = ''Subject: Sale\<newline>\<newline>Email snippet:\<newline>50% off''
           then answer_call args_newsletter
         else if snd (last msgs)
              = ''Subject: (No Subject)\<newline>\<newline>Email snippet:\<newline>Build passed''
           then answer_call args_notification
         else if snd (last msgs) = ''Subject: Invoice\<newline>\<newline>Email snippet:\<newline>Please pay''
           then answer_call args_important
         else answer_call args_spam)
      else Inr [\<lparr>content = Some ''```html\<newline><p>Digest</p>\<newline>```\<newline>'',
                 function_call = None\<rparr>])"

text \<open>
  Three more language models: one that answers in prose with no function call, one whose
  function call has the empty object as arguments, and one that classifies every message
  as \<^verbatim>\<open>spam\<close>, a category outside the enumeration.
\<close>

definition silent_ai :: openai where
  "silent_ai request =
     Inr [\<lparr>content = Some ''I cannot help with that.'', function_call = None\<rparr>]"

definition empty_args_ai :: openai where
  "empty_args_ai request = answer_call ''{}''"

fun spam_ai :: openai where
  "spam_ai (ChatRequest model msgs forced) =
     (if forced then answer_call args_spam
      else Inr [\<lparr>content = Some ''```html\<newline><p>Digest</p>\<newline>```\<newline>'',
                 function_call = None\<rparr>])"


text \<open>The run on the inbox of three messages: what is classified, rendered and requested.\<close>

definition inbox_classified :: "classified_email list" where
  "inbox_classified =
     [\<lparr>msg_id = ''m1'', subject = ''Sale'', snippet = ''50% off'',
        category = JStr ''newsletter'', summary = JStr ''A sale.''\<rparr>,
      \<lparr>msg_id = ''m2'', subject = ''(No Subject)'', snippet = ''Build passed'',
        category = JStr ''notification'', summary = JStr ''Build passed.''\<rparr>,
      \<lparr>msg_id = ''m3'', subject = ''Invoice'', snippet = ''Please pay'',
        category = JStr ''important'', summary = JStr ''Pay the invoice.''\<rparr>]"

definition inbox_digest :: string where
  "inbox_digest =
     ''**Executive Summary for D**\<newline>\<newline>''
     @ ''### Important Emails\<newline>\<newline>**1.** **Subject:** Invoice\<newline>Pay the invoice.\<newline>\<newline>''
     @ ''### Notifications\<newline>\<newline>**1.** **Subject:** (No Subject)\<newline>Build passed.\<newline>\<newline>''
     @ ''### Newsletters\<newline>\<newline>**1.** **Subject:** Sale\<newline>A sale.\<newline>\<newline>''
     @ ''\<newline>**End of Summary**''"

definition inbox_trace :: "event list" where
  "inbox_trace =
     [ListReq None None, GetReq ''m1'' None, GetReq ''m2'' None, GetReq ''m3'' None,
      ChatReq (classify_request ''Sale'' ''50% off'') None,
      ChatReq (classify_request ''(No Subject)'' ''Build passed'') None,
      ChatReq (classify_request ''Invoice'' ''Please pay'') None,
      ModifyReq ''m1'' None,
      ModifyReq ''m2'' (Some (PyError ''HttpError 503'')),
      ChatReq (convert_request inbox_digest) None,
      SendReq SEND_TO_EMAIL ''Daily Recap: E'' ''<p>Digest</p>'' None]"

text \<open>A classified message whose category is outside the enumeration.\<close>

definition spam_classified :: "classified_email list" where
  "spam_classified =
     [\<lparr>msg_id = ''m9'', subject = ''You won'', snippet = ''Claim your prize'',
        category = JStr ''spam'', summary = JStr ''Limited offer''\<rparr>]"

text \<open>
  An inbox with the one message \<open>m9\<close>, and the requests of the run on it when the
  language model is \<open>spam_ai\<close>.
\<close>

definition spam_mail :: gmail where
  "spam_mail =
     \<lparr>list_exec = (\<lambda>page_token. Inr \<lparr>messages = Some [''m9''], nextPageToken = None\<rparr>),
      get_exec = (\<lambda>i. Inr \<lparr>d_snippet = Some ''Claim your prize'',
        d_payload = Some \<lparr>headers = Some [\<lparr>h_name = ''Subject'', h_value = ''You won''\<rparr>]\<rparr>\<rparr>),
      modify_exec = (\<lambda>i. None),
      send_exec = (\<lambda>to_address subj body. None)\<rparr>"

definition spam_trace :: "event list" where
  "spam_trace =
     [ListReq None None, GetReq ''m9'' None,
      ChatReq (classify_request ''You won'' ''Claim your prize'') None,
      ModifyReq ''m9'' None,
      ChatReq (convert_request
                 ''**Executive Summary for D**\<newline>\<newline>\<newline>**End of Summary**'') None,
      SendReq SEND_TO_EMAIL ''Daily Recap: E'' ''<p>Digest</p>'' None]"

text \<open>
  Three more language models: one whose requests raise, one whose function call has
  arguments that are not JSON, and one whose function call has a JSON list as arguments.
\<close>

definition down_ai :: openai where
  "down_ai request = Inl (PyError ''Connection error.'')"

definition garbled_ai :: openai where
  "garbled_ai request = answer_call ''not json''"

definition list_args_ai :: openai where
  "list_args_ai request = answer_call ''[]''"


text \<open>Classified messages: two important ones and a newsletter between them.\<close>

definition numbered_classified :: "classified_email list" where
  "numbered_classified =
     [\<lparr>msg_id = ''a1'', subject = ''Contract'', snippet = ''Sign today'',
        category = JStr ''important'', summary = JStr ''Sign the contract.''\<rparr>,
      \<lparr>msg_id = ''a2'', subject = ''Weekly'', snippet = ''News'',
        category = JStr ''newsletter'', summary = JStr ''This week.''\<rparr>,
      \<lparr>msg_id = ''a3'', subject = ''Outage'', snippet = ''Server down'',
        category = JStr ''important'', summary = JStr ''Restart the server.''\<rparr>]"

text \<open>A classified message whose summary is a number.\<close>

definition numeric_classified :: "classified_email list" where
  "numeric_classified =
     [\<lparr>msg_id = ''m7'', subject = ''Report'', snippet = ''Numbers'',
        category = JStr ''important'', summary = JNum 5\<rparr>]"

section \<open>Properties\<close>

subsection \<open>The fetch stage\<close>

text \<open>A request failed during a fetch exactly when the body of the \<^verbatim>\<open>try\<close> raised.\<close>

lemma fetch_messages_failed:
  "fetch_messages g ids acc = (r, tr) \<Longrightarrow> (\<exists>ev\<in>set tr. failed ev) = isl r"
proof (induction ids arbitrary: acc r tr)
  case Nil
  then show ?case by auto
next
  case (Cons i ids)
  show ?case
  proof (cases "get_exec g i")
    case (Inl e)
    with Cons.prems show ?thesis by auto
  next
    case (Inr d)
    obtain r' tr' where rec: "fetch_messages g ids (acc @ [email_of i d]) = (r', tr')"
      by (cases "fetch_messages g ids (acc @ [email_of i d])") auto
    with Cons.prems Inr have "r = r'" "tr = GetReq i None # tr'" by auto
    with Cons.IH [OF rec] show ?thesis by simp
  qed
qed

lemma fetch_pages_failed:
  "fetch_pages n g tok acc = Some (r, tr) \<Longrightarrow> (\<exists>ev\<in>set tr. failed ev) = isl r"
proof (induction n arbitrary: tok acc r tr)
  case 0
  then show ?case by simp
next
  case (Suc n)
  show ?case
  proof (cases "list_exec g tok")
    case (Inl e)
    with Suc.prems show ?thesis by auto
  next
    case (Inr resp)
    obtain r1 tr1 where fm:
      "fetch_messages g (case messages resp of None \<Rightarrow> [] | Some ms \<Rightarrow> ms) acc = (r1, tr1)"
      by (cases "fetch_messages g (case messages resp of None \<Rightarrow> [] | Some ms \<Rightarrow> ms) acc") auto
    note f1 = fetch_messages_failed [OF fm]
    show ?thesis
    proof (cases r1)
      case (Inl e)
      with Suc.prems Inr fm f1 show ?thesis by auto
    next
      case r1: (Inr acc')
      show ?thesis
      proof (cases "falsy (nextPageToken resp)")
        case True
        with Suc.prems Inr fm f1 r1 show ?thesis by auto
      next
        case False
        with Suc.prems Inr fm r1 obtain tr' where
          rec: "fetch_pages n g (nextPageToken resp) acc' = Some (r, tr')"
          and tr: "tr = ListReq tok None # tr1 @ tr'"
          by (auto split: option.splits)
        from Suc.IH [OF rec] f1 r1 tr show ?thesis by auto
      qed
    qed
  qed
qed

text \<open>More fuel does not change a result.\<close>

lemma fetch_pages_mono:
  "fetch_pages n g tok acc = Some x \<Longrightarrow> fetch_pages (n + k) g tok acc = Some x"
proof (induction n arbitrary: tok acc x)
  case 0
  then show ?case by simp
next
  case (Suc n)
  then show ?case
    by (auto split: sum.splits prod.splits option.splits if_splits)
qed

lemma get_unread_mono:
  "get_unread_emails_past_24h n g = Some x \<Longrightarrow> get_unread_emails_past_24h (n + k) g = Some x"
  by (auto simp: get_unread_emails_past_24h_def fetch_pages_mono [where k = k]
      split: option.splits sum.splits)

lemma get_unread_cases:
  "get_unread_emails_past_24h n g = Some (emails, tr) \<Longrightarrow>
     (\<exists>e. fetch_pages n g None [] = Some (Inl e, tr) \<and> emails = [])
     \<or> fetch_pages n g None [] = Some (Inr emails, tr)"
  by (auto simp: get_unread_emails_past_24h_def split: option.splits sum.splits)

text \<open>Every message returned was retrieved by a request for its id that succeeded.\<close>

lemma fetch_messages_origin:
  "fetch_messages g ids acc = (Inr out, tr) \<Longrightarrow> e \<in> set out \<Longrightarrow>
     e \<in> set acc \<or> (\<exists>d. get_exec g (msg_id e) = Inr d \<and> e = email_of (msg_id e) d)"
proof (induction ids arbitrary: acc tr)
  case Nil
  then show ?case by simp
next
  case (Cons i ids)
  show ?case
  proof (cases "get_exec g i")
    case (Inl err)
    with Cons.prems show ?thesis by simp
  next
    case (Inr d)
    with Cons.prems obtain tr' where
      rec: "fetch_messages g ids (acc @ [email_of i d]) = (Inr out, tr')"
      by (auto split: prod.splits)
    from Cons.IH [OF rec Cons.prems(2)] Inr show ?thesis
      by (auto simp: email_of_def)
  qed
qed

lemma fetch_pages_origin:
  "fetch_pages n g tok acc = Some (Inr out, tr) \<Longrightarrow> e \<in> set out \<Longrightarrow>
     e \<in> set acc \<or> (\<exists>d. get_exec g (msg_id e) = Inr d \<and> e = email_of (msg_id e) d)"
proof (induction n arbitrary: tok acc tr)
  case 0
  then show ?case by simp
next
  case (Suc n)
  show ?case
  proof (cases "list_exec g tok")
    case (Inl err)
    with Suc.prems show ?thesis by simp
  next
    case (Inr resp)
    obtain r1 tr1 where fm:
      "fetch_messages g (case messages resp of None \<Rightarrow> [] | Some ms \<Rightarrow> ms) acc = (r1, tr1)"
      by (cases "fetch_messages g (case messages resp of None \<Rightarrow> [] | Some ms \<Rightarrow> ms) acc") auto
    show ?thesis
    proof (cases r1)
      case (Inl err)
      with Suc.prems Inr fm show ?thesis by simp
    next
      case r1: (Inr acc')
      note step = fetch_messages_origin [OF fm [unfolded r1]]
      show ?thesis
      proof (cases "falsy (nextPageToken resp)")
        case True
        with Suc.prems Inr fm r1 have "out = acc'" by simp
        with step Suc.prems(2) show ?thesis by simp
      next
        case False
        with Suc.prems Inr fm r1 obtain tr' where
          rec: "fetch_pages n g (nextPageToken resp) acc' = Some (Inr out, tr')"
          by (auto split: option.splits)
        from Suc.IH [OF rec Suc.prems(2)] step show ?thesis by blast
      qed
    qed
  qed
qed

lemma get_unread_origin:
  assumes "get_unread_emails_past_24h n g = Some (emails, tr)" and "e \<in> set emails"
  shows "\<exists>d. get_exec g (msg_id e) = Inr d \<and> e = email_of (msg_id e) d"
  using get_unread_cases [OF assms(1)] assms(2) fetch_pages_origin [of n g None "[]" emails tr e]
  by auto

text \<open>The fetch stage issues list and get requests only.\<close>

lemma fetch_messages_events:
  "fetch_messages g ids acc = (r, tr) \<Longrightarrow> ev \<in> set tr \<Longrightarrow> is_fetch ev"
proof (induction ids arbitrary: acc r tr)
  case Nil
  then show ?case by simp
next
  case (Cons i ids)
  then show ?case
    by (auto split: sum.splits prod.splits)
qed

lemma fetch_pages_events:
  "fetch_pages n g tok acc = Some (r, tr) \<Longrightarrow> ev \<in> set tr \<Longrightarrow> is_fetch ev"
proof (induction n arbitrary: tok acc r tr)
  case 0
  then show ?case by simp
next
  case (Suc n)
  then show ?case
    by (auto split: sum.splits prod.splits option.splits if_splits dest: fetch_messages_events)
qed

lemma get_unread_events:
  "get_unread_emails_past_24h n g = Some (emails, tr) \<Longrightarrow> ev \<in> set tr \<Longrightarrow> is_fetch ev"
  by (auto dest: get_unread_cases fetch_pages_events)

lemma is_fetch_only: "is_fetch ev \<Longrightarrow> \<not> is_chat ev \<and> \<not> is_modify ev \<and> \<not> is_send ev"
  by (cases ev) auto

lemma find_subject_None:
  "(find_subject hs = None) = (\<forall>h\<in>set hs. lower (h_name h) \<noteq> ''subject'')"
  by (induction hs) auto

lemma str_or_nonempty: "d \<noteq> [] \<Longrightarrow> str_or x d \<noteq> []"
  by (cases x) auto

text \<open>The two example listings, run.\<close>

lemma flaky_mail_run:
  "get_unread_emails_past_24h 2 flaky_mail =
     Some ([], [ListReq None None, GetReq ''m1'' None,
                ListReq (Some ''p2'') (Some (PyError ''HttpError 500''))])"
  by (simp add: get_unread_emails_past_24h_def flaky_mail_def numeral_2_eq_2)

lemma empty_mail_run: "get_unread_emails_past_24h 1 empty_mail = Some ([], [ListReq None None])"
  by (simp add: get_unread_emails_past_24h_def empty_mail_def)

lemma inbox_mail_run:
  "get_unread_emails_past_24h 1 inbox_mail =
     Some ([\<lparr>msg_id = ''m1'', subject = ''Sale'', snippet = ''50% off''\<rparr>,
            \<lparr>msg_id = ''m2'', subject = ''(No Subject)'', snippet = ''Build passed''\<rparr>,
            \<lparr>msg_id = ''m3'', subject = ''Invoice'', snippet = ''Please pay''\<rparr>],
           [ListReq None None, GetReq ''m1'' None, GetReq ''m2'' None, GetReq ''m3'' None])"
  by (simp add: get_unread_emails_past_24h_def inbox_mail_def inbox_detail_def email_of_def
      detail_headers_def lower_def lower_char_def upper_letters_def lower_letters_def)

text \<open>A request that raises within the pages allowed makes the loop raise.\<close>

lemma fetch_messages_raises:
  "isl (fst (fetch_messages g ids acc)) = (\<exists>i\<in>set ids. isl (get_exec g i))"
proof (induction ids arbitrary: acc)
  case Nil
  then show ?case by simp
next
  case (Cons i ids)
  show ?case
  proof (cases "get_exec g i")
    case (Inl e)
    then show ?thesis by simp
  next
    case (Inr d)
    then have "fst (fetch_messages g (i # ids) acc)
        = fst (fetch_messages g ids (acc @ [email_of i d]))"
      by (simp split: prod.splits)
    with Cons.IH [of "acc @ [email_of i d]"] Inr show ?thesis by simp
  qed
qed

lemma fails_within_raises:
  "fails_within n g tok \<Longrightarrow> \<exists>e tr. fetch_pages n g tok acc = Some (Inl e, tr)"
proof (induction n arbitrary: tok acc)
  case 0
  then show ?case by simp
next
  case (Suc n)
  show ?case
  proof (cases "list_exec g tok")
    case (Inl e)
    then show ?thesis by simp
  next
    case (Inr resp)
    let ?ids = "case messages resp of None \<Rightarrow> [] | Some ms \<Rightarrow> ms"
    obtain r1 tr1 where fm: "fetch_messages g ?ids acc = (r1, tr1)"
      by (cases "fetch_messages g ?ids acc") auto
    show ?thesis
    proof (cases r1)
      case (Inl e)
      with Inr fm show ?thesis by simp
    next
      case r1: (Inr acc')
      with fm fetch_messages_raises [of g ?ids acc]
      have "\<not> (\<exists>i\<in>set ?ids. isl (get_exec g i))" by simp
      with Suc.prems Inr have more: "\<not> falsy (nextPageToken resp)"
        and rec: "fails_within n g (nextPageToken resp)"
        by auto
      from Suc.IH [OF rec, of acc'] obtain e tr where
        "fetch_pages n g (nextPageToken resp) acc' = Some (Inl e, tr)"
        by blast
      with Inr fm r1 more show ?thesis by simp
    qed
  qed
qed

text \<open>
  C7. If a request of the fetch stage raises within the pages that the fuel allows, the
  fetcher returns, and it returns the empty list; and whenever it returns after a request
  that failed, it returns the empty list, also when earlier requests had retrieved
  messages.
\<close>

theorem fetch_failure_returns_empty:
  "(fails_within n service None
      \<longrightarrow> (\<exists>tr. get_unread_emails_past_24h (n + k) service = Some ([], tr)
                \<and> (\<exists>ev\<in>set tr. failed ev)))
   \<and> (get_unread_emails_past_24h n service = Some (emails, tr') \<and> (\<exists>ev\<in>set tr'. failed ev)
      \<longrightarrow> emails = [])"
proof (intro conjI impI)
  assume "fails_within n service None"
  from fails_within_raises [OF this, of "[]"] obtain e tr where
    raised: "fetch_pages n service None [] = Some (Inl e, tr)"
    by blast
  then have "get_unread_emails_past_24h n service = Some ([], tr)"
    by (simp add: get_unread_emails_past_24h_def)
  from get_unread_mono [OF this, of k] fetch_pages_failed [OF raised]
  show "\<exists>tr. get_unread_emails_past_24h (n + k) service = Some ([], tr)
          \<and> (\<exists>ev\<in>set tr. failed ev)"
    by auto
next
  assume run: "get_unread_emails_past_24h n service = Some (emails, tr') \<and> (\<exists>ev\<in>set tr'. failed ev)"
  then have "get_unread_emails_past_24h n service = Some (emails, tr')"
    by simp
  from get_unread_cases [OF this] show "emails = []"
  proof
    assume "\<exists>e. fetch_pages n service None [] = Some (Inl e, tr') \<and> emails = []"
    then show ?thesis by blast
  next
    assume "fetch_pages n service None [] = Some (Inr emails, tr')"
    from fetch_pages_failed [OF this] run show ?thesis by simp
  qed
qed

theorem fetch_failure_returns_empty_witness:
  "fails_within 2 flaky_mail None
   \<and> get_unread_emails_past_24h 2 flaky_mail =
     Some ([], [ListReq None None, GetReq ''m1'' None,
                ListReq (Some ''p2'') (Some (PyError ''HttpError 500''))])
   \<and> (\<exists>tr. get_unread_emails_past_24h (2 + 3) flaky_mail = Some ([], tr)
          \<and> (\<exists>ev\<in>set tr. failed ev))"
proof -
  have reach: "fails_within 2 flaky_mail None"
    by (simp add: flaky_mail_def numeral_2_eq_2)
  with fetch_failure_returns_empty [of 2 flaky_mail 3] flaky_mail_run
  show ?thesis by simp
qed

text \<open>
  C9. Every message the fetcher returns has a non-empty subject, and one whose payload
  has no Subject header has the subject \<^verbatim>\<open>(No Subject)\<close>.
\<close>

theorem fetched_subject_placeholder:
  assumes "get_unread_emails_past_24h n service = Some (emails, tr)" and "e \<in> set emails"
  shows "subject e \<noteq> []
    \<and> (\<exists>d. get_exec service (msg_id e) = Inr d
          \<and> (\<not> has_subject_header d \<longrightarrow> subject e = ''(No Subject)''))"
proof -
  from get_unread_origin [OF assms] obtain d where
    d: "get_exec service (msg_id e) = Inr d" and e: "e = email_of (msg_id e) d"
    by blast
  have "subject (email_of (msg_id e) d) \<noteq> []"
    by (simp add: email_of_def str_or_nonempty)
  moreover have "subject (email_of (msg_id e) d) = ''(No Subject)''" if "\<not> has_subject_header d"
  proof -
    from that have "find_subject (detail_headers d) = None"
      by (simp add: has_subject_header_def find_subject_None)
    then show ?thesis by (simp add: email_of_def)
  qed
  ultimately show ?thesis using d e by metis
qed

theorem fetched_subject_placeholder_witness:
  "get_exec inbox_mail ''m2'' = Inr \<lparr>d_snippet = Some ''Build passed'', d_payload = None\<rparr>
   \<and> \<not> has_subject_header \<lparr>d_snippet = Some ''Build passed'', d_payload = None\<rparr>
   \<and> subject \<lparr>msg_id = ''m2'', subject = ''(No Subject)'', snippet = ''Build passed''\<rparr>
       = ''(No Subject)''
   \<and> subject \<lparr>msg_id = ''m1'', subject = ''Sale'', snippet = ''50% off''\<rparr> \<noteq> []"
proof -
  have "\<lparr>msg_id = ''m1'', subject = ''Sale'', snippet = ''50% off''\<rparr>
          \<in> set [\<lparr>msg_id = ''m1'', subject = ''Sale'', snippet = ''50% off''\<rparr>,
            \<lparr>msg_id = ''m2'', subject = ''(No Subject)'', snippet = ''Build passed''\<rparr>,
            \<lparr>msg_id = ''m3'', subject = ''Invoice'', snippet = ''Please pay''\<rparr>]"
    by simp
  from fetched_subject_placeholder [OF inbox_mail_run this]
  show ?thesis
    by (simp add: inbox_mail_def inbox_detail_def has_subject_header_def detail_headers_def)
qed

text \<open>
  C5. When the fetch stage returns no message, the run ends there: its requests are those
  of the fetch stage, none of them a classification or conversion request, a modify
  request or a send request.
\<close>

theorem no_unread_no_further_requests:
  assumes "get_unread_emails_past_24h n service = Some ([], tr)"
  shows "main n (Inr service) ai loads date1 date2 = Some (None, tr)
    \<and> (\<forall>ev\<in>set tr. \<not> is_chat ev \<and> \<not> is_modify ev \<and> \<not> is_send ev)"
proof -
  have "main n (Inr service) ai loads date1 date2 = Some (None, tr)"
    using assms by (simp add: main_def)
  moreover have "\<forall>ev\<in>set tr. \<not> is_chat ev \<and> \<not> is_modify ev \<and> \<not> is_send ev"
    using get_unread_events [OF assms] is_fetch_only by blast
  ultimately show ?thesis by simp
qed

theorem no_unread_no_further_requests_witness:
  "get_unread_emails_past_24h 1 empty_mail = Some ([], [ListReq None None])
   \<and> main 1 (Inr empty_mail) example_ai example_loads ''November 03, 2026'' ''November 03, 2026''
       = Some (None, [ListReq None None])
   \<and> \<not> is_chat (ListReq None None) \<and> \<not> is_modify (ListReq None None)
   \<and> \<not> is_send (ListReq None None)"
  using no_unread_no_further_requests [OF empty_mail_run, of example_ai example_loads
      "''November 03, 2026''" "''November 03, 2026''"] empty_mail_run
  by simp

subsection \<open>Classification\<close>

text \<open>When reading the answer raises: no choice, text that is not JSON, or no dictionary.\<close>

lemma read_choices_raises:
  "isl (read_choices loads choices) =
     (case choices of
        [] \<Rightarrow> True
      | choice # _ \<Rightarrow>
          (case function_call choice of
             None \<Rightarrow> False
           | Some fc \<Rightarrow>
               (case loads (arguments fc) of
                  Inl e \<Rightarrow> True
                | Inr (JObj kvs) \<Rightarrow> False
                | Inr _ \<Rightarrow> True)))"
  by (auto simp: read_choices_def split: list.splits option.splits sum.splits json.splits)

text \<open>
  C3. When the classification response is missing or malformed, the classifier returns
  the category \<^verbatim>\<open>important\<close> with an explanatory summary, and it returns in every
  case: when the request raises, when the answer has no choice, when reading the
  arguments of the function call raises or gives a value that is no dictionary, the
  summary is the text \<^verbatim>\<open>Error occurred. Defaulting to category 'important'.\<close>
  followed by the details of the exception; when the first choice has no function call,
  it is the text \<^verbatim>\<open>Unable to parse email with function calling. Defaulting to 'important'.\<close>
\<close>

theorem malformed_response_defaults_important:
  "(ai (classify_request subj snip) = Inl e
      \<longrightarrow> fst (classify_and_summarize_email ai loads subj snip)
          = (JStr ''important'',
             JStr (''Error occurred. Defaulting to category 'important'.\<newline>\<newline>**Details:** ''
                   @ str_of_error e)))
   \<and> (ai (classify_request subj snip) = Inr []
      \<longrightarrow> fst (classify_and_summarize_email ai loads subj snip)
          = (JStr ''important'',
             JStr (''Error occurred. Defaulting to category 'important'.\<newline>\<newline>**Details:** ''
                   @ ''list index out of range'')))
   \<and> (ai (classify_request subj snip) = Inr (choice # rest) \<and> function_call choice = None
      \<longrightarrow> fst (classify_and_summarize_email ai loads subj snip)
          = (JStr ''important'',
             JStr ''Unable to parse email with function calling. Defaulting to 'important'.''))
   \<and> (ai (classify_request subj snip) = Inr (choice # rest) \<and> function_call choice = Some fc
        \<and> loads (arguments fc) = Inl e
      \<longrightarrow> fst (classify_and_summarize_email ai loads subj snip)
          = (JStr ''important'',
             JStr (''Error occurred. Defaulting to category 'important'.\<newline>\<newline>**Details:** ''
                   @ str_of_error e)))
   \<and> (ai (classify_request subj snip) = Inr (choice # rest) \<and> function_call choice = Some fc
        \<and> loads (arguments fc) = Inr v \<and> (\<forall>kvs. v \<noteq> JObj kvs)
      \<longrightarrow> fst (classify_and_summarize_email ai loads subj snip)
          = (JStr ''important'',
             JStr (''Error occurred. Defaulting to category 'important'.\<newline>\<newline>**Details:** ''
                   @ [CHR 0x27] @ py_type_name v @ [CHR 0x27] @ '' object has no attribute ''
                   @ [CHR 0x27] @ ''get'' @ [CHR 0x27])))"
proof (intro conjI impI)
  assume "ai (classify_request subj snip) = Inl e"
  then show "fst (classify_and_summarize_email ai loads subj snip)
          = (JStr ''important'',
             JStr (''Error occurred. Defaulting to category 'important'.\<newline>\<newline>**Details:** ''
                   @ str_of_error e))"
    by (simp add: classify_and_summarize_email_def error_result_def)
next
  assume "ai (classify_request subj snip) = Inr []"
  then show "fst (classify_and_summarize_email ai loads subj snip)
          = (JStr ''important'',
             JStr (''Error occurred. Defaulting to category 'important'.\<newline>\<newline>**Details:** ''
                   @ ''list index out of range''))"
    by (simp add: classify_and_summarize_email_def read_choices_def error_result_def)
next
  assume "ai (classify_request subj snip) = Inr (choice # rest) \<and> function_call choice = None"
  then show "fst (classify_and_summarize_email ai loads subj snip)
          = (JStr ''important'',
             JStr ''Unable to parse email with function calling. Defaulting to 'important'.'')"
    by (simp add: classify_and_summarize_email_def read_choices_def no_function_call_def)
next
  assume "ai (classify_request subj snip) = Inr (choice # rest) \<and> function_call choice = Some fc
        \<and> loads (arguments fc) = Inl e"
  then show "fst (classify_and_summarize_email ai loads subj snip)
          = (JStr ''important'',
             JStr (''Error occurred. Defaulting to category 'important'.\<newline>\<newline>**Details:** ''
                   @ str_of_error e))"
    by (simp add: classify_and_summarize_email_def read_choices_def error_result_def)
next
  assume a: "ai (classify_request subj snip) = Inr (choice # rest) \<and> function_call choice = Some fc
        \<and> loads (arguments fc) = Inr v \<and> (\<forall>kvs. v \<noteq> JObj kvs)"
  then have "py_get v ''category'' (JStr ''important'')
      = Inl (PyError ([CHR 0x27] @ py_type_name v @ [CHR 0x27] @ '' object has no attribute ''
            @ [CHR 0x27] @ ''get'' @ [CHR 0x27]))"
    by (cases v) auto
  with a show "fst (classify_and_summarize_email ai loads subj snip)
          = (JStr ''important'',
             JStr (''Error occurred. Defaulting to category 'important'.\<newline>\<newline>**Details:** ''
                   @ [CHR 0x27] @ py_type_name v @ [CHR 0x27] @ '' object has no attribute ''
                   @ [CHR 0x27] @ ''get'' @ [CHR 0x27]))"
    by (simp add: classify_and_summarize_email_def read_choices_def error_result_def)
qed

theorem malformed_response_defaults_important_witness:
  "fst (classify_and_summarize_email down_ai example_loads ''Hi'' ''there'')
     = (JStr ''important'',
        JStr ''Error occurred. Defaulting to category 'important'.\<newline>\<newline>**Details:** Connection error.'')
   \<and> fst (classify_and_summarize_email silent_ai example_loads ''Hi'' ''there'')
     = (JStr ''important'',
        JStr ''Unable to parse email with function calling. Defaulting to 'important'.'')
   \<and> fst (classify_and_summarize_email garbled_ai example_loads ''Hi'' ''there'')
     = (JStr ''important'',
        JStr ''Error occurred. Defaulting to category 'important'.\<newline>\<newline>**Details:** Expecting value: line 1 column 1 (char 0)'')
   \<and> fst (classify_and_summarize_email list_args_ai example_loads ''Hi'' ''there'')
     = (JStr ''important'',
        JStr (''Error occurred. Defaulting to category 'important'.\<newline>\<newline>**Details:** ''
              @ [CHR 0x27] @ ''list'' @ [CHR 0x27] @ '' object has no attribute ''
              @ [CHR 0x27] @ ''get'' @ [CHR 0x27]))"
proof -
  have down: "down_ai (classify_request ''Hi'' ''there'') = Inl (PyError ''Connection error.'')"
    by (simp add: down_ai_def)
  have silent: "silent_ai (classify_request ''Hi'' ''there'')
      = Inr (\<lparr>content = Some ''I cannot help with that.'', function_call = None\<rparr> # [])
    \<and> function_call \<lparr>content = Some ''I cannot help with that.'', function_call = None\<rparr> = None"
    by (simp add: silent_ai_def)
  have garbled: "garbled_ai (classify_request ''Hi'' ''there'')
      = Inr (\<lparr>content = None, function_call = Some (FunctionCall ''not json'')\<rparr> # [])
    \<and> function_call \<lparr>content = None, function_call = Some (FunctionCall ''not json'')\<rparr>
        = Some (FunctionCall ''not json'')
    \<and> example_loads (arguments (FunctionCall ''not json''))
        = Inl (PyError ''Expecting value: line 1 column 1 (char 0)'')"
    by (simp add: garbled_ai_def answer_call_def example_loads_def args_newsletter_def
        args_notification_def args_important_def args_spam_def)
  have listed: "list_args_ai (classify_request ''Hi'' ''there'')
      = Inr (\<lparr>content = None, function_call = Some (FunctionCall ''[]'')\<rparr> # [])
    \<and> function_call \<lparr>content = None, function_call = Some (FunctionCall ''[]'')\<rparr>
        = Some (FunctionCall ''[]'')
    \<and> example_loads (arguments (FunctionCall ''[]'')) = Inr (JArr [])
    \<and> (\<forall>kvs. JArr [] \<noteq> JObj kvs)"
    by (simp add: list_args_ai_def answer_call_def example_loads_def)
  note thm1 = malformed_response_defaults_important [where ai = down_ai and loads = example_loads
      and subj = "''Hi''" and snip = "''there''" and e = "PyError ''Connection error.''"]
  note thm2 = malformed_response_defaults_important [where ai = silent_ai and loads = example_loads
      and subj = "''Hi''" and snip = "''there''"
      and choice = "\<lparr>content = Some ''I cannot help with that.'', function_call = None\<rparr>"
      and rest = "[]"]
  note thm3 = malformed_response_defaults_important [where ai = garbled_ai and loads = example_loads
      and subj = "''Hi''" and snip = "''there''"
      and choice = "\<lparr>content = None, function_call = Some (FunctionCall ''not json'')\<rparr>"
      and rest = "[]" and fc = "FunctionCall ''not json''"
      and e = "PyError ''Expecting value: line 1 column 1 (char 0)''"]
  note thm4 = malformed_response_defaults_important [where ai = list_args_ai and loads = example_loads
      and subj = "''Hi''" and snip = "''there''"
      and choice = "\<lparr>content = None, function_call = Some (FunctionCall ''[]'')\<rparr>"
      and rest = "[]" and fc = "FunctionCall ''[]''" and v = "JArr []"]
  from thm1 down have 1: "fst (classify_and_summarize_email down_ai example_loads ''Hi'' ''there'')
     = (JStr ''important'',
        JStr ''Error occurred. Defaulting to category 'important'.\<newline>\<newline>**Details:** Connection error.'')"
    by simp
  from thm2 silent have 2: "fst (classify_and_summarize_email silent_ai example_loads ''Hi'' ''there'')
     = (JStr ''important'',
        JStr ''Unable to parse email with function calling. Defaulting to 'important'.'')"
    by blast
  from thm3 garbled have 3: "fst (classify_and_summarize_email garbled_ai example_loads ''Hi'' ''there'')
     = (JStr ''important'',
        JStr ''Error occurred. Defaulting to category 'important'.\<newline>\<newline>**Details:** Expecting value: line 1 column 1 (char 0)'')"
    by simp
  from thm4 listed have 4: "fst (classify_and_summarize_email list_args_ai example_loads ''Hi'' ''there'')
     = (JStr ''important'',
        JStr (''Error occurred. Defaulting to category 'important'.\<newline>\<newline>**Details:** ''
              @ [CHR 0x27] @ ''list'' @ [CHR 0x27] @ '' object has no attribute ''
              @ [CHR 0x27] @ ''get'' @ [CHR 0x27]))"
    by simp
  from 1 2 3 4 show ?thesis by blast
qed

text \<open>
  C10. When the first choice has a function call whose arguments parse to a dictionary,
  a missing key \<^verbatim>\<open>summary\<close> gives the empty string as summary and a missing key
  \<^verbatim>\<open>category\<close> gives the category \<^verbatim>\<open>important\<close>.
\<close>

theorem missing_keys_default:
  assumes "ai (classify_request subj snip) = Inr (choice # rest)"
    and "function_call choice = Some fc"
    and "loads (arguments fc) = Inr (JObj kvs)"
  shows "(map_of kvs ''summary'' = None
            \<longrightarrow> snd (fst (classify_and_summarize_email ai loads subj snip)) = JStr [])
    \<and> (map_of kvs ''category'' = None
            \<longrightarrow> fst (fst (classify_and_summarize_email ai loads subj snip)) = JStr ''important'')"
  using assms by (simp add: classify_and_summarize_email_def read_choices_def split: option.splits)

theorem missing_keys_default_witness:
  "empty_args_ai (classify_request ''Hi'' ''there'')
     = Inr [\<lparr>content = None, function_call = Some (FunctionCall ''{}'')\<rparr>]
   \<and> example_loads ''{}'' = Inr (JObj [])
   \<and> fst (classify_and_summarize_email empty_args_ai example_loads ''Hi'' ''there'')
       = (JStr ''important'', JStr [])"
proof -
  have resp: "empty_args_ai (classify_request ''Hi'' ''there'')
     = Inr [\<lparr>content = None, function_call = Some (FunctionCall ''{}'')\<rparr>]"
    by (simp add: empty_args_ai_def answer_call_def)
  have parsed: "example_loads (arguments (FunctionCall ''{}'')) = Inr (JObj [])"
    by (simp add: example_loads_def)
  from missing_keys_default [where ai = empty_args_ai and loads = example_loads
      and subj = "''Hi''" and snip = "''there''" and fc = "FunctionCall ''{}''" and kvs = "[]",
      OF resp _ parsed] resp parsed
  show ?thesis by (simp add: prod_eq_iff)
qed

subsection \<open>The example run\<close>

lemma classify_sale:
  "classify_and_summarize_email example_ai example_loads ''Sale'' ''50% off''
     = ((JStr ''newsletter'', JStr ''A sale.''),
        [ChatReq (classify_request ''Sale'' ''50% off'') None])"
  by (simp add: classify_and_summarize_email_def classify_request_def read_choices_def
      answer_call_def example_loads_def args_newsletter_def)

lemma classify_build:
  "classify_and_summarize_email example_ai example_loads ''(No Subject)'' ''Build passed''
     = ((JStr ''notification'', JStr ''Build passed.''),
        [ChatReq (classify_request ''(No Subject)'' ''Build passed'') None])"
  by (simp add: classify_and_summarize_email_def classify_request_def read_choices_def
      answer_call_def example_loads_def args_newsletter_def args_notification_def)

lemma classify_invoice:
  "classify_and_summarize_email example_ai example_loads ''Invoice'' ''Please pay''
     = ((JStr ''important'', JStr ''Pay the invoice.''),
        [ChatReq (classify_request ''Invoice'' ''Please pay'') None])"
  by (simp add: classify_and_summarize_email_def classify_request_def read_choices_def
      answer_call_def example_loads_def args_newsletter_def args_notification_def
      args_important_def)

lemma inbox_digest_run: "generate_executive_summary ''D'' inbox_classified = Inr inbox_digest"
  by (simp add: generate_executive_summary_def digest_lines_def py_join_def entry_line_def
      show_nat.simps inbox_digest_def inbox_classified_def)

lemma example_convert_run:
  "convert_md_to_html example_ai md = (''<p>Digest</p>'', [ChatReq (convert_request md) None])"
  by (simp add: convert_md_to_html_def convert_request_def read_content_def drop_fences_def
      strip_def is_space_def slice_1_m1_def)

lemma inbox_mail_requests:
  "modify_exec inbox_mail i = (if i = ''m2'' then Some (PyError ''HttpError 503'') else None)"
  "send_exec inbox_mail t s b = None"
  by (simp_all add: inbox_mail_def)

lemma inbox_main_run:
  "main 1 (Inr inbox_mail) example_ai example_loads ''D'' ''E'' = Some (None, inbox_trace)"
  by (simp add: main_def inbox_mail_run [unfolded One_nat_def] classify_sale classify_build
      classify_invoice email.defs classified_email.defs
      inbox_digest_run [unfolded inbox_classified_def] example_convert_run
      send_html_email_def inbox_mail_requests inbox_trace_def)

subsection \<open>A category outside the enumeration\<close>

lemma classify_spam:
  "classify_and_summarize_email spam_ai example_loads ''You won'' ''Claim your prize''
     = ((JStr ''spam'', JStr ''Limited offer''),
        [ChatReq (classify_request ''You won'' ''Claim your prize'') None])"
  by (simp add: classify_and_summarize_email_def classify_request_def answer_call_def
      read_choices_def example_loads_def args_newsletter_def args_notification_def
      args_important_def args_spam_def)

lemma spam_mail_run:
  "get_unread_emails_past_24h 1 spam_mail =
     Some ([\<lparr>msg_id = ''m9'', subject = ''You won'', snippet = ''Claim your prize''\<rparr>],
           [ListReq None None, GetReq ''m9'' None])"
  by (simp add: get_unread_emails_past_24h_def spam_mail_def email_of_def detail_headers_def
      lower_def lower_char_def upper_letters_def lower_letters_def)

lemma spam_convert_run:
  "convert_md_to_html spam_ai md = (''<p>Digest</p>'', [ChatReq (convert_request md) None])"
  by (simp add: convert_md_to_html_def convert_request_def read_content_def drop_fences_def
      strip_def is_space_def slice_1_m1_def)

lemma spam_digest_run:
  "generate_executive_summary ''D'' spam_classified
     = Inr ''**Executive Summary for D**\<newline>\<newline>\<newline>**End of Summary**''"
  by (simp add: spam_classified_def digest_lines_def generate_executive_summary_def py_join_def)

lemma spam_main_run:
  "main 1 (Inr spam_mail) spam_ai example_loads ''D'' ''E'' = Some (None, spam_trace)"
proof -
  have req: "modify_exec spam_mail i = None" "send_exec spam_mail t s b = None" for i t s b
    by (simp_all add: spam_mail_def)
  show ?thesis
    by (simp add: main_def spam_mail_run [unfolded One_nat_def] classify_spam email.defs
        classified_email.defs spam_digest_run [unfolded spam_classified_def] spam_convert_run
        send_html_email_def req spam_trace_def)
qed

text \<open>
  C2. The claim fails on the code: a category outside the enumeration in the arguments
  of the function call is returned as it is. In the run on the inbox with this one
  message, the message is marked read and the digest sent for conversion has no entry
  for it.
\<close>

theorem out_of_enumeration_category_kept:
  "spam_ai (classify_request ''You won'' ''Claim your prize'')
     = Inr [\<lparr>content = None, function_call = Some (FunctionCall args_spam)\<rparr>]
   \<and> example_loads args_spam
       = Inr (JObj [(''category'', JStr ''spam''), (''summary'', JStr ''Limited offer'')])
   \<and> fst (classify_and_summarize_email spam_ai example_loads ''You won'' ''Claim your prize'')
       = (JStr ''spam'', JStr ''Limited offer'')
   \<and> JStr ''spam'' \<notin> {JStr ''newsletter'', JStr ''notification'', JStr ''important''}
   \<and> main 1 (Inr spam_mail) spam_ai example_loads ''D'' ''E'' = Some (None, spam_trace)
   \<and> ''m9'' \<in> set (marked_read spam_trace)"
proof -
  have "example_loads args_spam
       = Inr (JObj [(''category'', JStr ''spam''), (''summary'', JStr ''Limited offer'')])"
    by (simp add: example_loads_def args_newsletter_def args_notification_def
        args_important_def args_spam_def)
  moreover have "spam_ai (classify_request ''You won'' ''Claim your prize'')
     = Inr [\<lparr>content = None, function_call = Some (FunctionCall args_spam)\<rparr>]"
    by (simp add: classify_request_def answer_call_def)
  moreover have "''m9'' \<in> set (marked_read spam_trace)"
    by (simp add: spam_trace_def)
  ultimately show ?thesis
    using classify_spam spam_main_run by simp
qed

subsection \<open>Marking as read\<close>

lemma attach_fields:
  "msg_id (attach ai loads m) = msg_id m"
  "category (attach ai loads m) = attached_category ai loads m"
  by (simp_all add: attach_def attached_category_def email.defs)

lemma classify_all_result: "fst (classify_all ai loads ms) = map (attach ai loads) ms"
  by (induction ms) (auto simp: attach_def split: prod.splits)

lemma classify_events:
  "ev \<in> set (snd (classify_and_summarize_email ai loads s t)) \<Longrightarrow> is_chat ev"
  by (auto simp: classify_and_summarize_email_def Let_def split: sum.splits)

lemma classify_all_trace:
  "snd (classify_all ai loads ms)
     = concat (map (\<lambda>m. snd (classify_and_summarize_email ai loads (subject m) (snippet m))) ms)"
  by (induction ms) (auto split: prod.splits)

lemma classify_all_events: "ev \<in> set (snd (classify_all ai loads ms)) \<Longrightarrow> is_chat ev"
  unfolding classify_all_trace using classify_events by auto

lemma convert_events: "ev \<in> set (snd (convert_md_to_html ai md)) \<Longrightarrow> is_chat ev"
  by (auto simp: convert_md_to_html_def Let_def split: sum.splits)

lemma is_chat_only: "is_chat ev \<Longrightarrow> \<not> is_modify ev"
  by (cases ev) auto

lemma modify_requested_append:
  "modify_requested (xs @ ys) = modify_requested xs @ modify_requested ys"
  by (induction xs rule: modify_requested.induct) auto

lemma marked_read_append: "marked_read (xs @ ys) = marked_read xs @ marked_read ys"
  by (induction xs rule: marked_read.induct) auto

lemma no_modify_requested: "\<forall>ev\<in>set tr. \<not> is_modify ev \<Longrightarrow> modify_requested tr = []"
  by (induction tr rule: modify_requested.induct) auto

lemma no_modify_marked: "\<forall>ev\<in>set tr. \<not> is_modify ev \<Longrightarrow> marked_read tr = []"
  by (induction tr rule: marked_read.induct) auto

text \<open>The mutator requests a modification for the messages not categorized important.\<close>

lemma mark_requested:
  "modify_requested (mark_non_important_as_read g cs)
     = map msg_id (filter (\<lambda>c. category c \<noteq> JStr ''important'') cs)"
  by (induction cs) auto

lemma mark_marked:
  "marked_read (mark_non_important_as_read g cs)
     = map msg_id
         (filter (\<lambda>c. category c \<noteq> JStr ''important'' \<and> modify_exec g (msg_id c) = None) cs)"
  by (induction cs) (auto split: option.splits)

text \<open>The modify requests of a run are those of its mutator stage.\<close>

lemma main_modify_events:
  assumes "main n (Inr g) ai loads d1 d2 = Some (r, tr)"
    and "get_unread_emails_past_24h n g = Some (unread, tr1)"
  shows "modify_requested tr
       = modify_requested (mark_non_important_as_read g (map (attach ai loads) unread))
    \<and> marked_read tr
       = marked_read (mark_non_important_as_read g (map (attach ai loads) unread))"
proof -
  have f: "\<forall>ev\<in>set tr1. \<not> is_modify ev"
    using get_unread_events [OF assms(2)] is_fetch_only by blast
  show ?thesis
  proof (cases "unread = []")
    case True
    with assms f show ?thesis
      by (simp add: main_def no_modify_requested no_modify_marked)
  next
    case False
    obtain cs tr2 where ca: "classify_all ai loads unread = (cs, tr2)"
      by (cases "classify_all ai loads unread") auto
    have cs: "cs = map (attach ai loads) unread"
      using classify_all_result [of ai loads unread] ca by simp
    have c: "\<forall>ev\<in>set tr2. \<not> is_modify ev"
      using classify_all_events [of _ ai loads unread] ca is_chat_only by auto
    show ?thesis
    proof (cases "generate_executive_summary d1 cs")
      case (Inl e)
      with assms False ca have "tr = tr1 @ tr2 @ mark_non_important_as_read g cs"
        by (simp add: main_def)
      with f c cs show ?thesis
        by (simp add: modify_requested_append marked_read_append no_modify_requested
            no_modify_marked)
    next
      case (Inr md)
      obtain html tr4 where cv: "convert_md_to_html ai md = (html, tr4)"
        by (cases "convert_md_to_html ai md") auto
      have v: "\<forall>ev\<in>set tr4. \<not> is_modify ev"
        using convert_events [of _ ai md] cv is_chat_only by auto
      from assms False ca Inr cv have
        "tr = tr1 @ tr2 @ mark_non_important_as_read g cs @ tr4
              @ send_html_email g SEND_TO_EMAIL (''Daily Recap: '' @ d2) html"
        by (simp add: main_def)
      with f c v cs show ?thesis
        by (simp add: modify_requested_append marked_read_append no_modify_requested
            no_modify_marked send_html_email_def)
    qed
  qed
qed

text \<open>A fetched message is determined by its id.\<close>

lemma fetched_determined:
  assumes "get_unread_emails_past_24h n g = Some (unread, tr1)"
    and "m \<in> set unread" and "m' \<in> set unread" and "msg_id m' = msg_id m"
  shows "m' = m"
  using get_unread_origin [OF assms(1,2)] get_unread_origin [OF assms(1,3)] assms(4)
  by auto

text \<open>
  C1, amended. For every fetched message of a run, a modify request is issued for it
  exactly when its attached category is not \<^verbatim>\<open>important\<close>, and its unread flag is
  cleared exactly when, moreover, that request succeeds.
\<close>

theorem modify_requests_of_run:
  assumes "main n (Inr service) ai loads date1 date2 = Some (r, tr)"
    and "get_unread_emails_past_24h n service = Some (unread, tr1)"
    and "m \<in> set unread"
  shows "(msg_id m \<in> set (modify_requested tr))
           = (attached_category ai loads m \<noteq> JStr ''important'')
    \<and> (msg_id m \<in> set (marked_read tr))
           = (attached_category ai loads m \<noteq> JStr ''important''
              \<and> modify_exec service (msg_id m) = None)"
proof -
  note same = fetched_determined [OF assms(2,3)]
  from main_modify_events [OF assms(1,2)]
  have req: "modify_requested tr
      = map msg_id (filter (\<lambda>c. category c \<noteq> JStr ''important'') (map (attach ai loads) unread))"
    and mrk: "marked_read tr
      = map msg_id (filter (\<lambda>c. category c \<noteq> JStr ''important''
          \<and> modify_exec service (msg_id c) = None) (map (attach ai loads) unread))"
    by (simp_all add: mark_requested mark_marked)
  have in_filter: "(msg_id m \<in> set (map msg_id (filter P (map (attach ai loads) unread))))
      = P (attach ai loads m)" for P
  proof
    assume "msg_id m \<in> set (map msg_id (filter P (map (attach ai loads) unread)))"
    then obtain m' where "m' \<in> set unread" and "P (attach ai loads m')"
      and "msg_id (attach ai loads m') = msg_id m"
      by auto
    with same [of m'] show "P (attach ai loads m)"
      by (simp add: attach_fields)
  next
    assume "P (attach ai loads m)"
    with assms(3) have "attach ai loads m \<in> set (filter P (map (attach ai loads) unread))"
      by simp
    then have "msg_id (attach ai loads m)
        \<in> set (map msg_id (filter P (map (attach ai loads) unread)))"
      unfolding set_map by (rule imageI)
    then show "msg_id m \<in> set (map msg_id (filter P (map (attach ai loads) unread)))"
      by (simp only: attach_fields)
  qed
  show ?thesis
    unfolding req mrk in_filter by (simp add: attach_fields)
qed

theorem modify_requests_of_run_witness:
  "main 1 (Inr inbox_mail) example_ai example_loads ''D'' ''E'' = Some (None, inbox_trace)
   \<and> attached_category example_ai example_loads
        \<lparr>msg_id = ''m1'', subject = ''Sale'', snippet = ''50% off''\<rparr> = JStr ''newsletter''
   \<and> modify_exec inbox_mail ''m1'' = None
   \<and> ''m1'' \<in> set (modify_requested inbox_trace)
   \<and> ''m1'' \<in> set (marked_read inbox_trace)"
proof -
  have fetched: "\<lparr>msg_id = ''m1'', subject = ''Sale'', snippet = ''50% off''\<rparr>
      \<in> set [\<lparr>msg_id = ''m1'', subject = ''Sale'', snippet = ''50% off''\<rparr>,
            \<lparr>msg_id = ''m2'', subject = ''(No Subject)'', snippet = ''Build passed''\<rparr>,
            \<lparr>msg_id = ''m3'', subject = ''Invoice'', snippet = ''Please pay''\<rparr>]"
    by simp
  have cat: "attached_category example_ai example_loads
        \<lparr>msg_id = ''m1'', subject = ''Sale'', snippet = ''50% off''\<rparr> = JStr ''newsletter''"
    by (simp add: attached_category_def classify_sale)
  from modify_requests_of_run [OF inbox_main_run inbox_mail_run fetched] cat inbox_main_run
  show ?thesis by (simp add: inbox_mail_requests)
qed

text \<open>
  C1 as stated fails: in the example run the message \<open>m2\<close> is fetched and categorized
  \<^verbatim>\<open>notification\<close>, its modify request raises, and the run ends with \<open>m2\<close> not marked
  read.
\<close>

theorem non_important_left_unread:
  "get_unread_emails_past_24h 1 inbox_mail
     = Some ([\<lparr>msg_id = ''m1'', subject = ''Sale'', snippet = ''50% off''\<rparr>,
              \<lparr>msg_id = ''m2'', subject = ''(No Subject)'', snippet = ''Build passed''\<rparr>,
              \<lparr>msg_id = ''m3'', subject = ''Invoice'', snippet = ''Please pay''\<rparr>],
             [ListReq None None, GetReq ''m1'' None, GetReq ''m2'' None, GetReq ''m3'' None])
   \<and> attached_category example_ai example_loads
        \<lparr>msg_id = ''m2'', subject = ''(No Subject)'', snippet = ''Build passed''\<rparr>
       = JStr ''notification''
   \<and> JStr ''notification'' \<noteq> JStr ''important''
   \<and> main 1 (Inr inbox_mail) example_ai example_loads ''D'' ''E'' = Some (None, inbox_trace)
   \<and> ''m2'' \<in> set (modify_requested inbox_trace)
   \<and> ''m2'' \<notin> set (marked_read inbox_trace)"
proof -
  have "''m2'' \<in> set (modify_requested inbox_trace)"
    and "''m2'' \<notin> set (marked_read inbox_trace)"
    by (simp_all add: inbox_trace_def)
  moreover have "attached_category example_ai example_loads
        \<lparr>msg_id = ''m2'', subject = ''(No Subject)'', snippet = ''Build passed''\<rparr>
       = JStr ''notification''"
    by (simp add: attached_category_def classify_build)
  ultimately show ?thesis
    using inbox_mail_run inbox_main_run by simp
qed

subsection \<open>The digest\<close>

text \<open>A loop over a group appends its entries, numbered from the start of the counter.\<close>

lemma append_entries_eq:
  "append_entries i es lines =
     lines @ concat (map (\<lambda>(i, e). [JStr (entry_line i e), summary e, JStr []])
                         (zip [i..<i + length es] es))"
proof (induction es arbitrary: i lines)
  case Nil
  then show ?case by simp
next
  case (Cons e es)
  have "[i..<i + length (e # es)] = i # [Suc i..<i + length (e # es)]"
    by (rule upt_conv_Cons) simp
  then have "[i..<i + length (e # es)] = i # [Suc i..<Suc i + length es]"
    by simp
  with Cons.IH [of "Suc i"] show ?case by simp
qed

lemma append_section:
  "(if es \<noteq> [] then append_entries 1 es (lines @ [JStr header]) else lines)
     = lines @ digest_section header es"
  by (simp add: digest_section_def digest_entries_def append_entries_eq)

lemma digest_lines_sections:
  "digest_lines today emails =
     JStr (''**Executive Summary for '' @ today @ ''**\<newline>'')
     # digest_section ''### Important Emails\<newline>''
         (filter (\<lambda>e. category e = JStr ''important'') emails)
     @ digest_section ''### Notifications\<newline>''
         (filter (\<lambda>e. category e = JStr ''notification'') emails)
     @ digest_section ''### Newsletters\<newline>''
         (filter (\<lambda>e. category e = JStr ''newsletter'') emails)
     @ [JStr ''\<newline>**End of Summary**'']"
  unfolding digest_lines_def Let_def append_section by simp

lemma mset_three_filters:
  assumes "\<forall>x\<in>set xs. f x = a \<or> f x = b \<or> f x = c" and "a \<noteq> b" and "a \<noteq> c" and "b \<noteq> c"
  shows "mset (filter (\<lambda>x. f x = a) xs) + (mset (filter (\<lambda>x. f x = b) xs)
       + mset (filter (\<lambda>x. f x = c) xs)) = mset xs"
  using assms by (induction xs) auto

text \<open>The counter of an entry is printed as its decimal numeral.\<close>

lemma digit_value_nth: "d < 10 \<Longrightarrow> digit_value (''0123456789'' ! d) = d"
proof -
  assume "d < 10"
  then consider "d = 0" | "d = 1" | "d = 2" | "d = 3" | "d = 4" | "d = 5" | "d = 6"
    | "d = 7" | "d = 8" | "d = 9"
    by atomize_elim arith
  then show ?thesis
    by cases (simp_all add: digit_value_def)
qed

lemma digit_nth_mem: "d < 10 \<Longrightarrow> ''0123456789'' ! d \<in> set ''0123456789''"
  by (rule nth_mem) simp

lemma dec_value_snoc: "dec_value (s @ [c]) = 10 * dec_value s + digit_value c"
  by (simp add: dec_value_def)

lemma show_nat_props:
  "show_nat n \<noteq> [] \<and> list_all (\<lambda>c. c \<in> set ''0123456789'') (show_nat n)
   \<and> dec_value (show_nat n) = n \<and> (hd (show_nat n) = CHR ''0'' \<longrightarrow> n = 0)"
proof (induction n rule: show_nat.induct)
  case (1 n)
  show ?case
  proof (cases "n < 10")
    case True
    then have s: "show_nat n = [''0123456789'' ! n]"
      by (subst show_nat.simps) simp
    have "n = 0" if "''0123456789'' ! n = CHR ''0''"
    proof -
      from that have "digit_value (''0123456789'' ! n) = digit_value CHR ''0''" by simp
      with True show ?thesis by (simp add: digit_value_nth) (simp add: digit_value_def)
    qed
    with True s show ?thesis
      using digit_nth_mem [of n] digit_value_nth [of n]
      by (simp add: dec_value_def del: set_simps)
  next
    case False
    then have s: "show_nat n = show_nat (n div 10) @ [''0123456789'' ! (n mod 10)]"
      by (subst show_nat.simps) simp
    from "1.IH" False have ih: "show_nat (n div 10) \<noteq> []"
      "list_all (\<lambda>c. c \<in> set ''0123456789'') (show_nat (n div 10))"
      "dec_value (show_nat (n div 10)) = n div 10"
      "hd (show_nat (n div 10)) = CHR ''0'' \<longrightarrow> n div 10 = 0"
      by simp_all
    have m: "n mod 10 < 10" by simp
    from False have "n div 10 \<noteq> 0" by simp
    with ih s show ?thesis
      using digit_nth_mem [OF m] digit_value_nth [OF m]
      by (simp add: dec_value_snoc del: set_simps)
  qed
qed

lemma show_nat_decimal: "is_decimal_of (show_nat n) n"
proof -
  have "show_nat 0 = ''0''"
    by (subst show_nat.simps) simp
  with show_nat_props [of n] show ?thesis
    by (auto simp: is_decimal_of_def)
qed

text \<open>Joining texts puts the separator after every text but the last.\<close>

lemma all_strs_map: "all_strs i (map JStr ss) = Inr ss"
  by (induction ss arbitrary: i) auto

lemma py_join_map: "py_join sep (map JStr ss) = Inr (join_strs sep ss)"
  by (simp add: py_join_def all_strs_map)

lemma join_strs_snoc: "join_strs sep (ss @ [l]) = concat (map (\<lambda>s. s @ sep) ss) @ l"
proof (induction ss)
  case Nil
  then show ?case by simp
next
  case (Cons s ss)
  then show ?case by (cases ss) auto
qed

text \<open>The lines of a group whose summaries are strings, and their text.\<close>

lemma entries_text:
  assumes "\<forall>e\<in>set es. \<exists>s. summary e = JStr s"
  shows "\<exists>ss. concat (map (\<lambda>(i, e). [JStr (entry_line i e), summary e, JStr []])
                   (zip [i..<i + length es] es)) = map JStr ss
          \<and> concat (map (\<lambda>s. s @ ''\<newline>'') ss)
              = concat (map (\<lambda>(k, e). entry_text k e) (zip [i..<i + length es] es))"
  using assms
proof (induction es arbitrary: i)
  case Nil
  then show ?case by simp
next
  case (Cons e es)
  from Cons.prems obtain s where s: "summary e = JStr s" by auto
  from Cons.prems have "\<forall>e\<in>set es. \<exists>s. summary e = JStr s" by simp
  from Cons.IH [OF this, of "Suc i"] obtain ss where
    ss: "concat (map (\<lambda>(i, e). [JStr (entry_line i e), summary e, JStr []])
           (zip [Suc i..<Suc i + length es] es)) = map JStr ss"
    and tx: "concat (map (\<lambda>s. s @ ''\<newline>'') ss)
        = concat (map (\<lambda>(k, e). entry_text k e) (zip [Suc i..<Suc i + length es] es))"
    by blast
  have "[i..<i + length (e # es)] = i # [Suc i..<i + length (e # es)]"
    by (rule upt_conv_Cons) simp
  then have up: "[i..<i + length (e # es)] = i # [Suc i..<Suc i + length es]"
    by simp
  let ?ss = "entry_line i e # s # [] # ss"
  have "concat (map (\<lambda>(i, e). [JStr (entry_line i e), summary e, JStr []])
           (zip [i..<i + length (e # es)] (e # es))) = map JStr ?ss"
    unfolding up using ss s by simp
  moreover have "concat (map (\<lambda>s. s @ ''\<newline>'') ?ss)
      = concat (map (\<lambda>(k, e). entry_text k e) (zip [i..<i + length (e # es)] (e # es)))"
    unfolding up using tx s by (simp add: entry_text_def entry_line_def summary_text_def)
  ultimately show ?case by blast
qed

lemma section_lines_text:
  assumes "\<forall>e\<in>set es. \<exists>s. summary e = JStr s"
  shows "\<exists>ss. digest_section header es = map JStr ss
          \<and> concat (map (\<lambda>s. s @ ''\<newline>'') ss) = section_text header es"
proof (cases "es = []")
  case True
  then have "digest_section header es = map JStr [] \<and>
      concat (map (\<lambda>s. s @ ''\<newline>'') []) = section_text header es"
    by (simp add: digest_section_def section_text_def)
  then show ?thesis by blast
next
  case False
  from entries_text [OF assms, of 1] obtain ss where
    ss: "digest_entries es = map JStr ss"
    and tx: "concat (map (\<lambda>s. s @ ''\<newline>'') ss)
        = concat (map (\<lambda>(k, e). entry_text k e) (zip [1..<Suc (length es)] es))"
    by (auto simp: digest_entries_def)
  from False ss tx have "digest_section header es = map JStr (header # ss) \<and>
      concat (map (\<lambda>s. s @ ''\<newline>'') (header # ss)) = section_text header es"
    by (simp add: digest_section_def section_text_def)
  then show ?thesis by blast
qed

text \<open>
  When the messages of the three groups have strings as summaries, the digest is
  rendered, and its text is that of the three groups.
\<close>

lemma generate_text:
  assumes "\<forall>e\<in>set emails.
      category e \<in> {JStr ''important'', JStr ''notification'', JStr ''newsletter''}
      \<longrightarrow> (\<exists>s. summary e = JStr s)"
  shows "generate_executive_summary today emails = Inr (digest_text today (digest_groups emails))"
proof -
  let ?imp = "filter (\<lambda>e. category e = JStr ''important'') emails"
  let ?ntf = "filter (\<lambda>e. category e = JStr ''notification'') emails"
  let ?nws = "filter (\<lambda>e. category e = JStr ''newsletter'') emails"
  from assms have "\<forall>e\<in>set ?imp. \<exists>s. summary e = JStr s" by simp
  from section_lines_text [OF this, of "''### Important Emails\<newline>''"] obtain s1 where
    s1: "digest_section ''### Important Emails\<newline>'' ?imp = map JStr s1"
    and t1: "concat (map (\<lambda>s. s @ ''\<newline>'') s1) = section_text ''### Important Emails\<newline>'' ?imp"
    by blast
  from assms have "\<forall>e\<in>set ?ntf. \<exists>s. summary e = JStr s" by simp
  from section_lines_text [OF this, of "''### Notifications\<newline>''"] obtain s2 where
    s2: "digest_section ''### Notifications\<newline>'' ?ntf = map JStr s2"
    and t2: "concat (map (\<lambda>s. s @ ''\<newline>'') s2) = section_text ''### Notifications\<newline>'' ?ntf"
    by blast
  from assms have "\<forall>e\<in>set ?nws. \<exists>s. summary e = JStr s" by simp
  from section_lines_text [OF this, of "''### Newsletters\<newline>''"] obtain s3 where
    s3: "digest_section ''### Newsletters\<newline>'' ?nws = map JStr s3"
    and t3: "concat (map (\<lambda>s. s @ ''\<newline>'') s3) = section_text ''### Newsletters\<newline>'' ?nws"
    by blast
  let ?front = "(''**Executive Summary for '' @ today @ ''**\<newline>'') # s1 @ s2 @ s3"
  have "digest_lines today emails = map JStr (?front @ [''\<newline>**End of Summary**''])"
    unfolding digest_lines_sections s1 s2 s3 by simp
  then have "generate_executive_summary today emails
      = Inr (join_strs ''\<newline>'' (?front @ [''\<newline>**End of Summary**'']))"
    by (simp only: generate_executive_summary_def py_join_map)
  also have "join_strs ''\<newline>'' (?front @ [''\<newline>**End of Summary**''])
      = concat (map (\<lambda>s. s @ ''\<newline>'') ?front) @ ''\<newline>**End of Summary**''"
    by (rule join_strs_snoc)
  also have "\<dots> = digest_text today (digest_groups emails)"
    using t1 t2 t3 by (simp add: digest_text_def digest_groups_def)
  finally show ?thesis .
qed

text \<open>
  C6, amended. For every list of classified messages in which the messages categorized
  important, notification or newsletter have strings as summaries, the digest is the
  title, then the group of the important messages, then that of the notifications, then
  that of the newsletters, then the closing line; a group that is not empty is introduced
  by its header and its entries are numbered 1, 2, ... in the order of the messages, each
  number printed as its decimal numeral.
\<close>

theorem digest_groups_in_fixed_order:
  assumes "\<forall>e\<in>set emails.
      category e \<in> {JStr ''important'', JStr ''notification'', JStr ''newsletter''}
      \<longrightarrow> (\<exists>s. summary e = JStr s)"
  shows "generate_executive_summary today emails
      = Inr (digest_text today
          [(''### Important Emails\<newline>'', filter (\<lambda>e. category e = JStr ''important'') emails),
           (''### Notifications\<newline>'', filter (\<lambda>e. category e = JStr ''notification'') emails),
           (''### Newsletters\<newline>'', filter (\<lambda>e. category e = JStr ''newsletter'') emails)])
    \<and> is_decimal_of (show_nat k) k"
  using generate_text [OF assms, of today] show_nat_decimal [of k]
  by (simp add: digest_groups_def)

theorem digest_groups_in_fixed_order_witness:
  "generate_executive_summary ''D'' numbered_classified
     = Inr (''**Executive Summary for D**\<newline>\<newline>''
            @ ''### Important Emails\<newline>\<newline>''
            @ ''**1.** **Subject:** Contract\<newline>Sign the contract.\<newline>\<newline>''
            @ ''**2.** **Subject:** Outage\<newline>Restart the server.\<newline>\<newline>''
            @ ''### Newsletters\<newline>\<newline>''
            @ ''**1.** **Subject:** Weekly\<newline>This week.\<newline>\<newline>''
            @ ''\<newline>**End of Summary**'')
   \<and> is_decimal_of (show_nat 12) 12 \<and> show_nat 12 = ''12''"
proof -
  have "\<forall>e\<in>set numbered_classified.
      category e \<in> {JStr ''important'', JStr ''notification'', JStr ''newsletter''}
      \<longrightarrow> (\<exists>s. summary e = JStr s)"
    by (simp add: numbered_classified_def)
  from digest_groups_in_fixed_order [OF this, of "''D''" 12]
  show ?thesis
    by (simp add: numbered_classified_def digest_text_def section_text_def entry_text_def
        summary_text_def show_nat.simps)
qed

text \<open>
  C6 as stated fails: for an important message whose summary is a number, joining the
  lines raises and no digest is rendered.
\<close>

theorem digest_fails_on_number_summary:
  "numeric_classified
     = [\<lparr>msg_id = ''m7'', subject = ''Report'', snippet = ''Numbers'',
          category = JStr ''important'', summary = JNum 5\<rparr>]
   \<and> generate_executive_summary ''D'' numeric_classified
     = Inl (PyError ''sequence item 3: expected str instance, int found'')"
  by (simp add: numeric_classified_def generate_executive_summary_def digest_lines_def
      py_join_def show_nat.simps)

text \<open>
  C4, amended. When the category of every classified message is one of the three
  enumerated values and every summary is a string, the digest is rendered, its text is
  that of the three groups under their headers, these groups together hold every message
  exactly once, and every message is in the group whose header matches its category.
\<close>

theorem digest_holds_each_message_once:
  assumes "\<forall>e\<in>set emails.
      category e \<in> {JStr ''important'', JStr ''notification'', JStr ''newsletter''}"
    and "\<forall>e\<in>set emails. \<exists>s. summary e = JStr s"
  shows "generate_executive_summary today emails = Inr (digest_text today (digest_groups emails))
    \<and> mset (concat (map snd (digest_groups emails))) = mset emails
    \<and> (\<forall>(header, es)\<in>set (digest_groups emails).
          \<forall>e\<in>set es. category_header (category e) = Some header)"
proof -
  have "generate_executive_summary today emails = Inr (digest_text today (digest_groups emails))"
    using assms(2) by (intro generate_text) simp
  moreover have "mset (concat (map snd (digest_groups emails))) = mset emails"
    using mset_three_filters [of emails category "JStr ''important''" "JStr ''notification''"
        "JStr ''newsletter''"] assms(1)
    by (simp add: digest_groups_def)
  moreover have "\<forall>(header, es)\<in>set (digest_groups emails). \<forall>e\<in>set es.
      category_header (category e) = Some header"
    by (simp add: digest_groups_def category_header_def)
  ultimately show ?thesis by simp
qed

theorem digest_holds_each_message_once_witness:
  "length inbox_classified = 3
   \<and> digest_groups inbox_classified
       = [(''### Important Emails\<newline>'', [inbox_classified ! 2]),
          (''### Notifications\<newline>'', [inbox_classified ! 1]),
          (''### Newsletters\<newline>'', [inbox_classified ! 0])]
   \<and> mset (concat (map snd (digest_groups inbox_classified))) = mset inbox_classified
   \<and> generate_executive_summary ''D'' inbox_classified = Inr inbox_digest"
proof -
  have cats: "\<forall>e\<in>set inbox_classified.
     category e \<in> {JStr ''important'', JStr ''notification'', JStr ''newsletter''}"
    by (simp add: inbox_classified_def)
  have strs: "\<forall>e\<in>set inbox_classified. \<exists>s. summary e = JStr s"
    by (simp add: inbox_classified_def)
  have groups: "digest_groups inbox_classified
       = [(''### Important Emails\<newline>'', [inbox_classified ! 2]),
          (''### Notifications\<newline>'', [inbox_classified ! 1]),
          (''### Newsletters\<newline>'', [inbox_classified ! 0])]"
    by (simp add: digest_groups_def inbox_classified_def)
  have rendered: "digest_text ''D''
        [(''### Important Emails\<newline>'', [inbox_classified ! 2]),
         (''### Notifications\<newline>'', [inbox_classified ! 1]),
         (''### Newsletters\<newline>'', [inbox_classified ! 0])] = inbox_digest"
    by (simp add: inbox_classified_def digest_text_def section_text_def entry_text_def
        summary_text_def show_nat.simps inbox_digest_def)
  from digest_holds_each_message_once [OF cats strs, of "''D''"] groups rendered
  show ?thesis
    by (simp add: inbox_classified_def)
qed

text \<open>
  C4 as stated fails: a classified message whose category is outside the enumeration is
  in no group, and the digest has no entry for it; and for a message whose summary is a
  number no digest is rendered.
\<close>

theorem digest_omits_other_category:
  "spam_classified \<noteq> []
   \<and> concat (map snd (digest_groups spam_classified)) = []
   \<and> digest_lines ''D'' spam_classified
       = [JStr ''**Executive Summary for D**\<newline>'', JStr ''\<newline>**End of Summary**'']
   \<and> generate_executive_summary ''D'' spam_classified
       = Inr ''**Executive Summary for D**\<newline>\<newline>\<newline>**End of Summary**''
   \<and> category (hd numeric_classified) = JStr ''important''
   \<and> generate_executive_summary ''D'' numeric_classified
       = Inl (PyError ''sequence item 3: expected str instance, int found'')"
  by (simp add: spam_classified_def numeric_classified_def digest_groups_def digest_lines_def
      generate_executive_summary_def py_join_def show_nat.simps)

subsection \<open>Conversion to HTML\<close>



















end
